theory Spec2Isabelle
  imports Complex_Main "HOL-Library.AList" "HOL-Library.Product_Lexorder"
begin

section \<open>Numbers, series and dictionaries\<close>

text \<open>
  In the signal detector, the sentiment analyzer and the alert manager Python floats are
  modelled by exact reals; the asset finder, whose ranking depends on rounding and on
  NaN, computes with the doubles of the section on floating-point numbers. A pandas
  Series of floats is a list whose
  entries are \<open>Some x\<close> for a number and \<open>None\<close> for NaN; with exact arithmetic and
  finite inputs no infinity arises in \<open>calculate_rsi\<close>, because the only divisors are
  an average loss from which 0 has been replaced by NaN, and \<open>1 + rs\<close> with \<open>rs \<ge> 0\<close>.
  A dict is an association list in insertion order; \<open>AList.update\<close> is the item
  assignment \<open>d[k] = v\<close> (overwrite in place, or append a new key).
\<close>

type_synonym series = "real option list"

datatype py_error = IndexError

definition nan_sub :: "real option \<Rightarrow> real option \<Rightarrow> real option" where
  "nan_sub a b = (case a of None \<Rightarrow> None | Some x \<Rightarrow> (case b of None \<Rightarrow> None | Some y \<Rightarrow> Some (x - y)))"

definition nan_add :: "real option \<Rightarrow> real option \<Rightarrow> real option" where
  "nan_add a b = (case a of None \<Rightarrow> None | Some x \<Rightarrow> (case b of None \<Rightarrow> None | Some y \<Rightarrow> Some (x + y)))"

text \<open>Division of two entries. A zero divisor is never met in \<open>calculate_rsi\<close>
  (lemma \<open>calculate_rsi_divisors\<close> below); the model gives NaN there.\<close>

definition nan_div :: "real option \<Rightarrow> real option \<Rightarrow> real option" where
  "nan_div a b = (case a of None \<Rightarrow> None | Some x \<Rightarrow>
     (case b of None \<Rightarrow> None | Some y \<Rightarrow> if y = 0 then None else Some (x / y)))"

definition nan_neg :: "real option \<Rightarrow> real option" where
  "nan_neg a = map_option uminus a"

text \<open>Comparisons with NaN are false.\<close>

definition gt0 :: "real option \<Rightarrow> bool" where
  "gt0 a = (case a of None \<Rightarrow> False | Some x \<Rightarrow> x > 0)"

definition lt0 :: "real option \<Rightarrow> bool" where
  "lt0 a = (case a of None \<Rightarrow> False | Some x \<Rightarrow> x < 0)"

subsection \<open>The pandas operations used by \<open>calculate_rsi\<close>\<close>

text \<open>\<open>Series.diff()\<close>: the first entry is NaN, every other one is the difference to
  its predecessor.\<close>

fun diff_from :: "real option \<Rightarrow> series \<Rightarrow> series" where
  "diff_from prev [] = []"
| "diff_from prev (x # xs) = nan_sub x prev # diff_from x xs"

definition diff :: "series \<Rightarrow> series" where
  "diff s = (case s of [] \<Rightarrow> [] | x # xs \<Rightarrow> None # diff_from x xs)"

text \<open>\<open>s.where(cond, other)\<close>: keep the entry where the condition holds, else \<open>other\<close>.\<close>

definition series_where :: "(real option \<Rightarrow> bool) \<Rightarrow> real \<Rightarrow> series \<Rightarrow> series" where
  "series_where cond other s = map (\<lambda>v. if cond v then v else Some other) s"

definition series_neg :: "series \<Rightarrow> series" where
  "series_neg s = map nan_neg s"

text \<open>\<open>s.rolling(window, min_periods).mean()\<close>: at position \<open>i\<close> the mean of the
  numbers among the last \<open>window\<close> entries up to and including \<open>i\<close>, NaN when fewer than
  \<open>min_periods\<close> of them are numbers.\<close>

definition window_mean :: "nat \<Rightarrow> series \<Rightarrow> real option" where
  "window_mean min_periods w =
     (let vals = List.map_filter id w
      in if length vals \<ge> min_periods \<and> vals \<noteq> []
         then Some (sum_list vals / real (length vals)) else None)"

definition rolling_mean :: "nat \<Rightarrow> nat \<Rightarrow> series \<Rightarrow> series" where
  "rolling_mean window min_periods s =
     map (\<lambda>i. window_mean min_periods (drop (Suc i - window) (take (Suc i) s))) [0..<length s]"

text \<open>\<open>s.replace(0, np.nan)\<close>.\<close>

definition replace_zero_nan :: "series \<Rightarrow> series" where
  "replace_zero_nan s = map (\<lambda>v. if v = Some 0 then None else v) s"

definition series_div :: "series \<Rightarrow> series \<Rightarrow> series" where
  "series_div a b = map (\<lambda>(x, y). nan_div x y) (zip a b)"

section \<open>trading_detector.py\<close>

text \<open>The intermediate series of \<open>calculate_rsi\<close>, in the order of the source.\<close>

definition rsi_gain :: "series \<Rightarrow> series" where
  "rsi_gain s = series_where gt0 0 (diff s)"

definition rsi_loss :: "series \<Rightarrow> series" where
  "rsi_loss s = series_neg (series_where lt0 0 (diff s))"

definition rsi_avg_gain :: "series \<Rightarrow> nat \<Rightarrow> series" where
  "rsi_avg_gain s period = rolling_mean period 1 (rsi_gain s)"

definition rsi_avg_loss :: "series \<Rightarrow> nat \<Rightarrow> series" where
  "rsi_avg_loss s period = rolling_mean period 1 (rsi_loss s)"

definition rsi_rs :: "series \<Rightarrow> nat \<Rightarrow> series" where
  "rsi_rs s period = series_div (rsi_avg_gain s period) (replace_zero_nan (rsi_avg_loss s period))"

definition calculate_rsi :: "series \<Rightarrow> nat \<Rightarrow> series" where
  "calculate_rsi s period =
     map (\<lambda>rs. nan_sub (Some 100) (nan_div (Some 100) (nan_add (Some 1) rs))) (rsi_rs s period)"

text \<open>\<open>rsi_series.iloc[-1]\<close>: the last entry; IndexError on an empty series.\<close>

definition iloc_last :: "series \<Rightarrow> py_error + real option" where
  "iloc_last s = (if s = [] then Inl IndexError else Inr (last s))"

text \<open>An entry of the market-data dict. The detector reads the key
  \<open>"daily_history"\<close> only, which may be absent.\<close>

record market_entry =
  daily_history :: "real list option"

definition classify_rsi :: "real option \<Rightarrow> string" where
  "classify_rsi rsi =
     (case rsi of
        Some r \<Rightarrow>
          if r > 70 then ''Momentum (Overbought)''
          else if r < 30 then ''Momentum (Oversold)''
          else ''No signal''
      | None \<Rightarrow> ''No signal (insufficient data)'')"

text \<open>The body of the loop of \<open>detect_opportunities\<close> for one asset.\<close>

definition signal_for :: "market_entry \<Rightarrow> py_error + string" where
  "signal_for data =
     (case daily_history data of
        None \<Rightarrow> Inr ''No signal (insufficient history)''
      | Some h \<Rightarrow>
          if length h \<ge> 14
          then (case iloc_last (calculate_rsi (map Some h) 14) of
                  Inl e \<Rightarrow> Inl e
                | Inr rsi \<Rightarrow> Inr (classify_rsi rsi))
          else Inr ''No signal (insufficient history)'')"

fun detect_loop ::
  "(string \<times> market_entry) list \<Rightarrow> (string \<times> string) list \<Rightarrow> py_error + (string \<times> string) list" where
  "detect_loop [] opportunities = Inr opportunities"
| "detect_loop ((asset, data) # rest) opportunities =
     (case signal_for data of
        Inl e \<Rightarrow> Inl e
      | Inr signal \<Rightarrow> detect_loop rest (AList.update asset signal opportunities))"

definition detect_opportunities ::
  "(string \<times> market_entry) list \<Rightarrow> py_error + (string \<times> string) list" where
  "detect_opportunities market_data = detect_loop market_data []"

text \<open>The label the loop body computes for an entry, written without the error case;
  \<open>signal_for_total\<close> shows that the IndexError of \<open>iloc[-1]\<close> cannot happen behind the
  length guard, so \<open>signal_for\<close> always returns this label.\<close>

definition signal_label :: "market_entry \<Rightarrow> string" where
  "signal_label data =
     (case daily_history data of
        None \<Rightarrow> ''No signal (insufficient history)''
      | Some h \<Rightarrow>
          if length h \<ge> 14 then classify_rsi (last (calculate_rsi (map Some h) 14))
          else ''No signal (insufficient history)'')"

section \<open>Strings\<close>

text \<open>Python's \<open>needle in haystack\<close> on strings: \<open>needle\<close> occurs as a contiguous
  substring.\<close>

fun startswith :: "string \<Rightarrow> string \<Rightarrow> bool" where
  "startswith s [] = True"
| "startswith [] (p # ps) = False"
| "startswith (c # cs) (p # ps) = (c = p \<and> startswith cs ps)"

fun py_in :: "string \<Rightarrow> string \<Rightarrow> bool" where
  "py_in needle [] = (needle = [])"
| "py_in needle (c # cs) = (startswith (c # cs) needle \<or> py_in needle cs)"

text \<open>\<open>str.lower()\<close> on ASCII text: the letters A to Z are mapped to a to z, every
  other character is kept.\<close>

definition lower_char :: "char \<Rightarrow> char" where
  "lower_char c =
     (let n = (of_char c :: nat) in if 65 \<le> n \<and> n \<le> 90 then char_of (n + 32) else c)"

definition lower :: "string \<Rightarrow> string" where
  "lower s = map lower_char s"

section \<open>sentiment_analyzer.py\<close>

record news_info =
  description :: string
  source :: string
  published_at :: string

record polarity_scores =
  neg :: real
  neu :: real
  pos :: real
  compound :: real

record sentiment_info =
  avg_compound :: real
  count :: int

text \<open>\<open>analyze_sentiment\<close>: one entry per headline, keyed by the title. The parameter
  \<open>polarity\<close> stands for VADER applied to the preprocessed text,
  \<open>analyzer.polarity_scores(preprocess_text(text))\<close>; it returns for every text.\<close>

fun analyze_loop ::
  "(string \<Rightarrow> polarity_scores) \<Rightarrow> (string \<times> news_info) list \<Rightarrow>
   (string \<times> polarity_scores) list \<Rightarrow> (string \<times> polarity_scores) list" where
  "analyze_loop polarity [] sentiment_scores = sentiment_scores"
| "analyze_loop polarity ((title, info) # rest) sentiment_scores =
     analyze_loop polarity rest
       (AList.update title (polarity (title @ '' '' @ description info)) sentiment_scores)"

definition analyze_sentiment ::
  "(string \<Rightarrow> polarity_scores) \<Rightarrow> (string \<times> news_info) list \<Rightarrow> (string \<times> polarity_scores) list" where
  "analyze_sentiment polarity news_data = analyze_loop polarity news_data []"

datatype lookup_error = KeyError

text \<open>\<open>asset_sentiments[asset].append(c)\<close>.\<close>

definition append_compound ::
  "string \<Rightarrow> real \<Rightarrow> (string \<times> real list) list \<Rightarrow> lookup_error + (string \<times> real list) list" where
  "append_compound asset c asset_sentiments =
     (case map_of asset_sentiments asset of
        None \<Rightarrow> Inl KeyError
      | Some compounds \<Rightarrow> Inr (AList.update asset (compounds @ [c]) asset_sentiments))"

text \<open>The inner loop over the assets for one headline. The description is looked up
  only when the title does not match (\<open>or\<close> is short-circuit).\<close>

fun match_assets ::
  "(string \<times> news_info) list \<Rightarrow> string \<Rightarrow> real \<Rightarrow> string list \<Rightarrow>
   (string \<times> real list) list \<Rightarrow> lookup_error + (string \<times> real list) list" where
  "match_assets news_data title c [] asset_sentiments = Inr asset_sentiments"
| "match_assets news_data title c (asset # rest) asset_sentiments =
     (if py_in (lower asset) (lower title)
      then (case append_compound asset c asset_sentiments of
              Inl e \<Rightarrow> Inl e
            | Inr s \<Rightarrow> match_assets news_data title c rest s)
      else (case map_of news_data title of
              None \<Rightarrow> Inl KeyError
            | Some info \<Rightarrow>
                if py_in (lower asset) (lower (description info))
                then (case append_compound asset c asset_sentiments of
                        Inl e \<Rightarrow> Inl e
                      | Inr s \<Rightarrow> match_assets news_data title c rest s)
                else match_assets news_data title c rest asset_sentiments))"

text \<open>The outer loop over the scored headlines.\<close>

fun match_headlines ::
  "(string \<times> news_info) list \<Rightarrow> (string \<times> polarity_scores) list \<Rightarrow> string list \<Rightarrow>
   (string \<times> real list) list \<Rightarrow> lookup_error + (string \<times> real list) list" where
  "match_headlines news_data [] assets asset_sentiments = Inr asset_sentiments"
| "match_headlines news_data ((title, scores) # rest) assets asset_sentiments =
     (case match_assets news_data title (compound scores) assets asset_sentiments of
        Inl e \<Rightarrow> Inl e
      | Inr s \<Rightarrow> match_headlines news_data rest assets s)"

definition aggregate_one :: "real list \<Rightarrow> sentiment_info" where
  "aggregate_one compounds =
     (if compounds \<noteq> []
      then \<lparr>avg_compound = sum_list compounds / real (length compounds),
            count = int (length compounds)\<rparr>
      else \<lparr>avg_compound = 0, count = 0\<rparr>)"

fun aggregate_loop ::
  "(string \<times> real list) list \<Rightarrow> (string \<times> sentiment_info) list \<Rightarrow> (string \<times> sentiment_info) list" where
  "aggregate_loop [] aggregated = aggregated"
| "aggregate_loop ((asset, compounds) # rest) aggregated =
     aggregate_loop rest (AList.update asset (aggregate_one compounds) aggregated)"

text \<open>The dict comprehensions \<open>{asset: [] for asset in assets}\<close> and
  \<open>{asset: {"avg_compound": 0.0, "count": 0} for asset in assets}\<close>.\<close>

definition dict_from_keys :: "string list \<Rightarrow> 'v \<Rightarrow> (string \<times> 'v) list" where
  "dict_from_keys keys v = fold (\<lambda>k d. AList.update k v d) keys []"

text \<open>\<open>aggregate_sentiment_by_asset\<close>: any exception inside the \<open>try\<close> block gives
  the all-neutral dict.\<close>

definition aggregate_sentiment_by_asset ::
  "(string \<Rightarrow> polarity_scores) \<Rightarrow> (string \<times> news_info) list \<Rightarrow> string list \<Rightarrow>
   (string \<times> sentiment_info) list" where
  "aggregate_sentiment_by_asset polarity news_data assets =
     (let sentiment_scores = analyze_sentiment polarity news_data;
          asset_sentiments = dict_from_keys assets []
      in case match_headlines news_data sentiment_scores assets asset_sentiments of
           Inl e \<Rightarrow> dict_from_keys assets \<lparr>avg_compound = 0, count = 0\<rparr>
         | Inr s \<Rightarrow> aggregate_loop s [])"

text \<open>\<open>asset_sentiments.get(asset, {"avg_compound": 0.0, "count": 0})\<close>, used by the
  asset finder and by the alert manager.\<close>

definition sentiment_get :: "(string \<times> sentiment_info) list \<Rightarrow> string \<Rightarrow> sentiment_info" where
  "sentiment_get asset_sentiments asset =
     (case map_of asset_sentiments asset of
        None \<Rightarrow> \<lparr>avg_compound = 0, count = 0\<rparr>
      | Some info \<Rightarrow> info)"

text \<open>The join policy and the matched scores in the words of the specification, to
  compare \<open>aggregate_sentiment_by_asset\<close> with: a headline belongs to a ticker when the
  lower-cased ticker is a substring of the lower-cased headline or description.\<close>

definition headline_matches :: "string \<Rightarrow> string \<Rightarrow> news_info \<Rightarrow> bool" where
  "headline_matches asset title info =
     (py_in (lower asset) (lower title) \<or> py_in (lower asset) (lower (description info)))"

definition matched_compounds ::
  "(string \<Rightarrow> polarity_scores) \<Rightarrow> (string \<times> news_info) list \<Rightarrow> string \<Rightarrow> real list" where
  "matched_compounds polarity news_data asset =
     map (\<lambda>(title, info). compound (polarity (title @ '' '' @ description info)))
       (filter (\<lambda>(title, info). headline_matches asset title info) news_data)"

text \<open>The compound scores that the two loops append for a ticker, read off the scored
  headlines.\<close>

definition matched_scores ::
  "(string \<times> news_info) list \<Rightarrow> (string \<times> polarity_scores) list \<Rightarrow> string \<Rightarrow> real list" where
  "matched_scores news_data sentiment_scores asset =
     map (\<lambda>(title, scores). compound scores)
       (filter (\<lambda>(title, scores).
                  case map_of news_data title of
                    None \<Rightarrow> False
                  | Some info \<Rightarrow> headline_matches asset title info)
          sentiment_scores)"

section \<open>Floating-point numbers\<close>

text \<open>
  The asset finder computes with Python floats (IEEE 754 doubles) that may be infinite or
  NaN. A finite float is the real number it stands for, and every arithmetic operation
  rounds its exact result to the nearest double, ties to the even mantissa, as the
  hardware does: \<open>fl\<close> scales a positive real to a mantissa in \<open>[2^52, 2^53)\<close> (less for
  a subnormal, exponent \<open>-1074\<close>), rounds the mantissa to an integer, and gives infinity
  from \<open>2^1024\<close> on. The sign of a zero is not represented; it takes part in no
  comparison of the program.
\<close>

datatype pyfloat = Finite real | PosInf | NegInf | NaN

definition pow2 :: "int \<Rightarrow> real" where
  "pow2 e = (if e \<ge> 0 then 2 ^ nat e else 1 / 2 ^ nat (- e))"

definition round_even :: "real \<Rightarrow> int" where
  "round_even x =
     (let f = \<lfloor>x\<rfloor>; d = x - of_int f
      in if d < 1 / 2 then f else if d > 1 / 2 then f + 1 else if even f then f else f + 1)"

function norm_up :: "real \<Rightarrow> int \<Rightarrow> real \<times> int" where
  "norm_up m e = (if m < 2 ^ 52 \<and> e > - 1074 then norm_up (2 * m) (e - 1) else (m, e))"
  by pat_completeness auto
termination
  by (relation "measure (\<lambda>(m, e). nat (e + 1074))") auto

function norm_down :: "real \<Rightarrow> int \<Rightarrow> real \<times> int" where
  "norm_down m e = (if m \<ge> 2 ^ 53 \<and> e < 972 then norm_down (m / 2) (e + 1) else (m, e))"
  by pat_completeness auto
termination
  by (relation "measure (\<lambda>(m, e). nat (972 - e))") auto

declare norm_up.simps [simp del] norm_down.simps [simp del]

definition normalise :: "real \<Rightarrow> real \<times> int" where
  "normalise x = (if x < 2 ^ 52 then norm_up x 0 else norm_down x 0)"

definition fl_pos :: "real \<Rightarrow> pyfloat" where
  "fl_pos x =
     (let (m, e) = normalise x;
          v = of_int (round_even m) * pow2 e
      in if v \<ge> 2 ^ 1024 then PosInf else Finite v)"

fun fneg :: "pyfloat \<Rightarrow> pyfloat" where
  "fneg (Finite a) = Finite (- a)"
| "fneg PosInf = NegInf"
| "fneg NegInf = PosInf"
| "fneg NaN = NaN"

definition fl :: "real \<Rightarrow> pyfloat" where
  "fl x = (if x = 0 then Finite 0 else if x > 0 then fl_pos x else fneg (fl_pos (- x)))"

text \<open>Float multiplication and addition, and the comparisons \<open><\<close> and \<open><=\<close>, which
  are false whenever an operand is NaN.\<close>

fun fmul :: "pyfloat \<Rightarrow> pyfloat \<Rightarrow> pyfloat" where
  "fmul NaN y = NaN"
| "fmul x NaN = NaN"
| "fmul (Finite a) (Finite b) = fl (a * b)"
| "fmul (Finite a) PosInf = (if a > 0 then PosInf else if a < 0 then NegInf else NaN)"
| "fmul (Finite a) NegInf = (if a > 0 then NegInf else if a < 0 then PosInf else NaN)"
| "fmul PosInf (Finite b) = (if b > 0 then PosInf else if b < 0 then NegInf else NaN)"
| "fmul NegInf (Finite b) = (if b > 0 then NegInf else if b < 0 then PosInf else NaN)"
| "fmul PosInf PosInf = PosInf"
| "fmul PosInf NegInf = NegInf"
| "fmul NegInf PosInf = NegInf"
| "fmul NegInf NegInf = PosInf"

fun fadd :: "pyfloat \<Rightarrow> pyfloat \<Rightarrow> pyfloat" where
  "fadd NaN y = NaN"
| "fadd x NaN = NaN"
| "fadd (Finite a) (Finite b) = fl (a + b)"
| "fadd (Finite a) PosInf = PosInf"
| "fadd (Finite a) NegInf = NegInf"
| "fadd PosInf (Finite b) = PosInf"
| "fadd NegInf (Finite b) = NegInf"
| "fadd PosInf PosInf = PosInf"
| "fadd NegInf NegInf = NegInf"
| "fadd PosInf NegInf = NaN"
| "fadd NegInf PosInf = NaN"

fun flt :: "pyfloat \<Rightarrow> pyfloat \<Rightarrow> bool" where
  "flt (Finite a) (Finite b) = (a < b)"
| "flt (Finite a) PosInf = True"
| "flt NegInf (Finite b) = True"
| "flt NegInf PosInf = True"
| "flt x y = False"

fun fle :: "pyfloat \<Rightarrow> pyfloat \<Rightarrow> bool" where
  "fle (Finite a) (Finite b) = (a \<le> b)"
| "fle (Finite a) PosInf = True"
| "fle NegInf (Finite b) = True"
| "fle NegInf PosInf = True"
| "fle PosInf PosInf = True"
| "fle NegInf NegInf = True"
| "fle x y = False"

definition pyfloat_gt0 :: "pyfloat \<Rightarrow> bool" where
  "pyfloat_gt0 x = (case x of Finite r \<Rightarrow> r > 0 | PosInf \<Rightarrow> True | NegInf \<Rightarrow> False | NaN \<Rightarrow> False)"

text \<open>The normal form \<open>normalise\<close> computes: mantissa and exponent of a positive real.\<close>

definition normal :: "real \<Rightarrow> real \<Rightarrow> int \<Rightarrow> bool" where
  "normal x m e \<longleftrightarrow>
     m * pow2 e = x \<and> - 1074 \<le> e \<and> e \<le> 972 \<and>
     (- 1074 < e \<longrightarrow> 2 ^ 52 \<le> m) \<and> (e < 972 \<longrightarrow> m < 2 ^ 53)"

section \<open>asset_finder.py\<close>

definition fallback_tickers :: "string list" where
  "fallback_tickers =
     [''DZSI'', ''BBWI'', ''ETSY'', ''SENS'', ''NGVC'', ''INOD'', ''NGS'', ''OB'', ''TBBK'', ''HESM'']"

text \<open>The slice \<open>xs[:n]\<close> for a Python integer \<open>n\<close>.\<close>

definition slice_to :: "int \<Rightarrow> 'a list \<Rightarrow> 'a list" where
  "slice_to n xs = (if n \<ge> 0 then take (nat n) xs else take (length xs - nat (- n)) xs)"

record asset_finder =
  target_assets :: int
  max_candidates :: int
  stock_candidates :: "string list"

datatype init_error = ValueError

text \<open>\<open>fetch_biggest_losers\<close>: \<open>losers\<close> is the list of symbols in the response of the
  market-losers endpoint, \<open>None\<close> when the request or its decoding raised.\<close>

definition fetch_biggest_losers :: "int \<Rightarrow> string list option \<Rightarrow> string list" where
  "fetch_biggest_losers max_c losers =
     (case losers of
        None \<Rightarrow> fallback_tickers
      | Some data \<Rightarrow>
          (let tickers = slice_to max_c data
           in if tickers = [] then fallback_tickers else tickers))"

text \<open>\<open>AssetFinder.__init__\<close>; \<open>api_key\<close> is the environment variable FMP_API_KEY.\<close>

definition AssetFinder_init ::
  "string option \<Rightarrow> string list option \<Rightarrow> int \<Rightarrow> int \<Rightarrow> init_error + asset_finder" where
  "AssetFinder_init api_key losers target max_c =
     (if api_key = None \<or> api_key = Some [] then Inl ValueError
      else Inr \<lparr>target_assets = max 5 (min target 10),
                max_candidates = max_c,
                stock_candidates = fetch_biggest_losers max_c losers\<rparr>)"

text \<open>\<open>Series.pct_change()\<close> on the closing prices, which are numbers: the first
  entry is NaN, every other one is the relative change to its predecessor, taken exactly;
  a zero predecessor gives an infinity, or NaN for \<open>0 / 0\<close>.\<close>

fun pct_change_from :: "real \<Rightarrow> real list \<Rightarrow> pyfloat list" where
  "pct_change_from prev [] = []"
| "pct_change_from prev (c # cs) =
     (if prev = 0 then (if c = 0 then NaN else if c > 0 then PosInf else NegInf)
      else Finite (c / prev - 1)) # pct_change_from c cs"

definition pct_change :: "real list \<Rightarrow> pyfloat list" where
  "pct_change closes = (case closes of [] \<Rightarrow> [] | c # cs \<Rightarrow> NaN # pct_change_from c cs)"

definition dropna :: "pyfloat list \<Rightarrow> pyfloat list" where
  "dropna xs = filter (\<lambda>x. x \<noteq> NaN) xs"

definition finite_values :: "pyfloat list \<Rightarrow> real list" where
  "finite_values xs = List.map_filter (\<lambda>x. case x of Finite r \<Rightarrow> Some r | _ \<Rightarrow> None) xs"

text \<open>\<open>Series.std()\<close>, the sample standard deviation (one degree of freedom removed)
  of the entries that are not NaN: NaN when there are fewer than two of them or when one
  is infinite. The value itself is taken exactly; pandas computes it in doubles.\<close>

definition series_std :: "pyfloat list \<Rightarrow> pyfloat" where
  "series_std xs =
     (let present = filter (\<lambda>x. x \<noteq> NaN) xs
      in if length present < 2 then NaN
         else if list_ex (\<lambda>x. x = PosInf \<or> x = NegInf) present then NaN
         else (let vals = finite_values present;
                   n = real (length vals);
                   mean = sum_list vals / n
               in Finite (sqrt (sum_list (map (\<lambda>v. (v - mean) ^ 2) vals) / (n - 1)))))"

text \<open>\<open>np.sqrt(252)\<close> is the double nearest to the square root of 252,
  15.874507866387544.\<close>

definition sqrt_252 :: pyfloat where
  "sqrt_252 = Finite (8936553463969119 / 2 ^ 49)"

text \<open>\<open>calculate_volatility\<close> on the closing prices of the history, one per row.\<close>

definition calculate_volatility :: "real list \<Rightarrow> pyfloat" where
  "calculate_volatility history =
     (if length history < 2 then Finite 0
      else fmul (series_std (dropna (pct_change history))) sqrt_252)"

text \<open>What yfinance returns for a ticker: the closing prices of the 14-day history and
  the \<open>info\<close> keys, which may be absent.\<close>

record yf_ticker =
  history_close :: "real list"
  info_marketCap :: "real option"
  info_forwardPE :: "pyfloat option"

record asset_data =
  ticker :: string
  market_cap :: real
  volatility :: pyfloat
  pe_ratio :: pyfloat

record scored_asset = asset_data +
  score :: pyfloat
  sentiment :: real
  news_count :: int

text \<open>\<open>fetch_asset_data\<close>; \<open>yf t = None\<close> stands for an exception of the provider.\<close>

definition fetch_asset_data :: "(string \<Rightarrow> yf_ticker option) \<Rightarrow> string \<Rightarrow> asset_data option" where
  "fetch_asset_data yf t =
     (case yf t of
        None \<Rightarrow> None
      | Some asset \<Rightarrow>
          if history_close asset = [] then None
          else
            (let mc = (case info_marketCap asset of None \<Rightarrow> 0 | Some m \<Rightarrow> m);
                 pe = (case info_forwardPE asset of None \<Rightarrow> PosInf | Some p \<Rightarrow> p)
             in if mc = 0 then None
                else Some \<lparr>ticker = t, market_cap = mc,
                           volatility = calculate_volatility (history_close asset),
                           pe_ratio = pe\<rparr>))"

definition sentiment_weight :: "sentiment_info \<Rightarrow> pyfloat" where
  "sentiment_weight info = (if count info > 0 then Finite \<bar>avg_compound info\<bar> else fl 0.1)"

definition pe_score :: "pyfloat \<Rightarrow> pyfloat" where
  "pe_score pe =
     (if pe \<noteq> PosInf \<and> pyfloat_gt0 pe
      then (case pe of Finite r \<Rightarrow> fl (1 / r) | _ \<Rightarrow> Finite 0)
      else Finite 0)"

text \<open>The body of the loop of \<open>find_interesting_assets\<close> for a ticker with data. The
  literals 0.4 and 0.3 are the doubles nearest to them.\<close>

definition score_asset :: "sentiment_info \<Rightarrow> asset_data \<Rightarrow> scored_asset" where
  "score_asset info data =
     asset_data.extend data
       (scored_asset.fields
          (fadd (fadd (fmul (sentiment_weight info) (fl 0.4)) (fmul (volatility data) (fl 0.3)))
                (fmul (pe_score (pe_ratio data)) (fl 0.3)))
          \<bar>avg_compound info\<bar>
          (count info))"

fun score_loop ::
  "(string \<Rightarrow> yf_ticker option) \<Rightarrow> (string \<times> sentiment_info) list \<Rightarrow> string list \<Rightarrow>
   scored_asset list \<Rightarrow> scored_asset list" where
  "score_loop yf asset_sentiments [] acc = acc"
| "score_loop yf asset_sentiments (t # rest) acc =
     (case fetch_asset_data yf t of
        None \<Rightarrow> score_loop yf asset_sentiments rest acc
      | Some data \<Rightarrow>
          score_loop yf asset_sentiments rest
            (acc @ [score_asset (sentiment_get asset_sentiments t) data]))"

text \<open>
  \<open>asset_data.sort(key=lambda x: x["score"], reverse=True)\<close> compares the scores with
  \<open><\<close> only. With a NaN score these comparisons are not an order, and the result is
  what the sorting algorithm makes of them, so the algorithm is modelled: CPython reverses
  the list, sorts it ascending and reverses it again; the ascending sort of a list of
  fewer than 64 entries finds the run the list starts with (reversing it when it is
  strictly descending) and inserts the remaining entries one by one by binary search. A
  longer list is cut into such runs, which are merged.
\<close>

fun asc_run :: "pyfloat \<Rightarrow> pyfloat list \<Rightarrow> nat" where
  "asc_run prev [] = 0"
| "asc_run prev (k # ks) = (if flt k prev then 0 else Suc (asc_run k ks))"

fun desc_run :: "pyfloat \<Rightarrow> pyfloat list \<Rightarrow> nat" where
  "desc_run prev [] = 0"
| "desc_run prev (k # ks) = (if flt k prev then Suc (desc_run k ks) else 0)"

definition count_run :: "pyfloat list \<Rightarrow> nat \<times> bool" where
  "count_run keys =
     (case keys of
        [] \<Rightarrow> (0, False)
      | [k] \<Rightarrow> (1, False)
      | k0 # k1 # ks \<Rightarrow>
          if flt k1 k0 then (2 + desc_run k1 ks, True) else (2 + asc_run k1 ks, False))"

function bisect :: "pyfloat \<Rightarrow> pyfloat list \<Rightarrow> nat \<Rightarrow> nat \<Rightarrow> nat" where
  "bisect pivot keys l r =
     (let p = l + (r - l) div 2;
          l' = (if flt pivot (keys ! p) then l else p + 1);
          r' = (if flt pivot (keys ! p) then p else r)
      in if l' < r' then bisect pivot keys l' r' else l')"
  by pat_completeness auto
termination
  by (relation "measure (\<lambda>(pivot, keys, l, r). r - l)") (auto simp: Let_def split: if_splits)

declare bisect.simps [simp del]

definition binary_insert :: "scored_asset list \<Rightarrow> scored_asset \<Rightarrow> scored_asset list" where
  "binary_insert prefix x =
     (let l = bisect (score x) (map score prefix) 0 (length prefix)
      in take l prefix @ [x] @ drop l prefix)"

definition small_sort :: "scored_asset list \<Rightarrow> scored_asset list" where
  "small_sort xs =
     (if length xs < 2 then xs
      else (let (n, descending) = count_run (map score xs);
                run = (if descending then rev (take n xs) else take n xs)
            in foldl binary_insert run (drop n xs)))"

definition sort_by_score_desc :: "scored_asset list \<Rightarrow> scored_asset list" where
  "sort_by_score_desc xs = rev (small_sort (rev xs))"

text \<open>
  Python's sort is stable, also with \<open>reverse=True\<close>: on scores that are numbers the
  algorithm computes the stable sort into descending order (lemma
  \<open>sort_by_score_desc_no_NaN\<close>), which is the stable sort of the library by the key
  \<open>desc_key\<close>, a key that reverses the order of the floats.
\<close>

definition desc_key :: "pyfloat \<Rightarrow> int \<times> real" where
  "desc_key x =
     (case x of PosInf \<Rightarrow> (0, 0) | Finite r \<Rightarrow> (1, - r) | NegInf \<Rightarrow> (2, 0) | NaN \<Rightarrow> (3, 0))"

definition ranked_assets ::
  "asset_finder \<Rightarrow> (string \<Rightarrow> yf_ticker option) \<Rightarrow> (string \<times> sentiment_info) list \<Rightarrow> scored_asset list" where
  "ranked_assets self yf asset_sentiments =
     slice_to (target_assets self)
       (sort_by_score_desc (score_loop yf asset_sentiments (stock_candidates self) []))"

definition find_interesting_assets ::
  "asset_finder \<Rightarrow> (string \<Rightarrow> yf_ticker option) \<Rightarrow> (string \<times> sentiment_info) list \<Rightarrow> string list" where
  "find_interesting_assets self yf asset_sentiments =
     map ticker (ranked_assets self yf asset_sentiments)"

section \<open>alert_manager.py\<close>

record fmp_profile =
  profile_description :: "string option"
  profile_sector :: "string option"
  profile_industry :: "string option"
  profile_mktCap :: "real option"

record company_profile =
  cp_description :: string
  cp_sector :: string
  cp_sp500 :: string

text \<open>\<open>fetch_company_profile\<close>; \<open>fmp t\<close> is the decoded response of the profile
  endpoint, \<open>None\<close> for a request exception.\<close>

definition fetch_company_profile :: "(string \<Rightarrow> fmp_profile list option) \<Rightarrow> string \<Rightarrow> company_profile" where
  "fetch_company_profile fmp t =
     (case fmp t of
        None \<Rightarrow> \<lparr>cp_description = ''Error fetching data for '' @ t,
                  cp_sector = ''Unknown'', cp_sp500 = ''Unknown''\<rparr>
      | Some [] \<Rightarrow> \<lparr>cp_description = ''No data available for '' @ t,
                     cp_sector = ''Unknown'', cp_sp500 = ''Unknown''\<rparr>
      | Some (profile # _) \<Rightarrow>
          (let d = (case profile_description profile of None \<Rightarrow> ''No description available'' | Some x \<Rightarrow> x);
               sec = (case profile_sector profile of None \<Rightarrow> ''Unknown'' | Some x \<Rightarrow> x);
               industry = (case profile_industry profile of None \<Rightarrow> [] | Some x \<Rightarrow> x);
               full_sector = (if industry \<noteq> [] then sec @ '' ('' @ industry @ '')'' else sec);
               cap = (case profile_mktCap profile of None \<Rightarrow> 0 | Some x \<Rightarrow> x)
           in \<lparr>cp_description = d, cp_sector = full_sector,
               cp_sp500 = (if cap > 10000000000 then ''Yes'' else ''No'')\<rparr>))"

record alert_manager =
  sender :: string
  password :: string
  recipients :: "string list"

record mime_message =
  msg_subject :: string
  msg_from :: string
  msg_to :: "string list"
  msg_body :: string

text \<open>\<open>send_email\<close>: the message handed to the SMTP server, \<open>None\<close> when the method
  returns early because sender, password or recipients are missing.\<close>

definition send_email :: "alert_manager \<Rightarrow> string \<Rightarrow> string \<Rightarrow> mime_message option" where
  "send_email self subject body =
     (if sender self = [] \<or> password self = [] then None
      else if recipients self = [] then None
      else Some \<lparr>msg_subject = subject, msg_from = sender self,
                 msg_to = recipients self, msg_body = body\<rparr>)"

text \<open>The keyword arguments of \<open>template.format\<close>.\<close>

record template_args =
  arg_action :: string
  arg_action_color :: string
  arg_asset :: string
  arg_signal :: string
  arg_sentiment_color :: string
  arg_avg_compound :: real
  arg_sentiment_label :: string
  arg_news_count :: int
  arg_description :: string
  arg_sector :: string
  arg_sp500 :: string

text \<open>One call of \<open>send_email\<close> made by \<open>process_alerts\<close>: the asset of the loop
  iteration that made it, its two arguments, and what \<open>send_email\<close> did with them.\<close>

record alert =
  alert_asset :: string
  alert_subject :: string
  alert_body :: string
  alert_message :: "mime_message option"

definition should_alert :: "string \<Rightarrow> real \<Rightarrow> bool" where
  "should_alert signal avg =
     ((py_in ''Oversold'' signal \<and> avg > 0.5) \<or> (py_in ''Overbought'' signal \<and> avg < - 0.5))"

definition compose_alert ::
  "alert_manager \<Rightarrow> (string \<Rightarrow> fmp_profile list option) \<Rightarrow> (template_args \<Rightarrow> string) \<Rightarrow>
   string \<Rightarrow> string \<Rightarrow> sentiment_info \<Rightarrow> alert" where
  "compose_alert self fmp template asset signal info =
     (let avg = avg_compound info;
          profile = fetch_company_profile fmp asset;
          sentiment_label = (if avg > 0 then ''Positive'' else if avg < 0 then ''Negative'' else ''Neutral'');
          sentiment_color = (if avg > 0 then ''green'' else if avg < 0 then ''red'' else ''gray'');
          action_color = (if py_in ''Oversold'' signal then ''green'' else ''red'');
          action = (if py_in ''Oversold'' signal then ''Buy'' else ''Sell'');
          body = template \<lparr>arg_action = action, arg_action_color = action_color,
                   arg_asset = asset, arg_signal = signal,
                   arg_sentiment_color = sentiment_color, arg_avg_compound = avg,
                   arg_sentiment_label = sentiment_label, arg_news_count = count info,
                   arg_description = cp_description profile, arg_sector = cp_sector profile,
                   arg_sp500 = cp_sp500 profile\<rparr>;
          subject = ''Trading Alert: '' @ action @ '' Opportunity for '' @ asset
      in \<lparr>alert_asset = asset, alert_subject = subject, alert_body = body,
          alert_message = send_email self subject body\<rparr>)"

text \<open>\<open>process_alerts\<close>: the calls of \<open>send_email\<close>, in the order of the loop over
  \<open>opportunities.items()\<close>. The company profile and the template file are external:
  \<open>fmp\<close> answers the profile request and \<open>template\<close> is the formatting of the file
  \<open>src/email_template.html\<close>, both taken to return.\<close>

fun process_alerts ::
  "alert_manager \<Rightarrow> (string \<Rightarrow> fmp_profile list option) \<Rightarrow> (template_args \<Rightarrow> string) \<Rightarrow>
   (string \<times> string) list \<Rightarrow> (string \<times> sentiment_info) list \<Rightarrow> alert list" where
  "process_alerts self fmp template [] asset_sentiments = []"
| "process_alerts self fmp template ((asset, signal) # rest) asset_sentiments =
     (let sentiment_info = sentiment_get asset_sentiments asset
      in if \<not> should_alert signal (avg_compound sentiment_info)
         then process_alerts self fmp template rest asset_sentiments
         else compose_alert self fmp template asset signal sentiment_info
                # process_alerts self fmp template rest asset_sentiments)"

section \<open>app.py\<close>

text \<open>The environment of \<open>main\<close>: the FMP key, the answers of the providers, the RSS
  headlines fetched for a list of assets, and the polarity scorer.\<close>

record environment =
  env_api_key :: "string option"
  env_losers :: "string list option"
  env_yf :: "string \<Rightarrow> yf_ticker option"
  env_news :: "string list \<Rightarrow> (string \<times> news_info) list"
  env_polarity :: "string \<Rightarrow> polarity_scores"

text \<open>Steps 1 to 4 of \<open>main\<close>: the value of \<open>ASSETS\<close> after the fallback.\<close>

definition main_assets :: "environment \<Rightarrow> init_error + string list" where
  "main_assets env =
     (case AssetFinder_init (env_api_key env) (env_losers env) 5 10 of
        Inl e \<Rightarrow> Inl e
      | Inr asset_finder \<Rightarrow>
          (let candidate_assets = stock_candidates asset_finder;
               news_data = env_news env candidate_assets;
               asset_sentiments =
                 aggregate_sentiment_by_asset (env_polarity env) news_data candidate_assets;
               ASSETS = find_interesting_assets asset_finder (env_yf env) asset_sentiments
           in if ASSETS = [] then Inr (take 5 fallback_tickers) else Inr ASSETS))"

section \<open>Properties of the signal detector\<close>

lemma length_diff_from [simp]: "length (diff_from p s) = length s"
  by (induction s arbitrary: p) simp_all

lemma length_diff [simp]: "length (diff s) = length s"
  by (simp add: diff_def split: list.splits)

lemma length_rolling_mean [simp]: "length (rolling_mean w m s) = length s"
  by (simp add: rolling_mean_def)

lemma length_rsi_avg_gain [simp]: "length (rsi_avg_gain s p) = length s"
  by (simp add: rsi_avg_gain_def rsi_gain_def series_where_def)

lemma length_rsi_avg_loss [simp]: "length (rsi_avg_loss s p) = length s"
  by (simp add: rsi_avg_loss_def rsi_loss_def series_where_def series_neg_def)

lemma length_calculate_rsi [simp]: "length (calculate_rsi s p) = length s"
  by (simp add: calculate_rsi_def rsi_rs_def series_div_def replace_zero_nan_def)

lemma signal_for_total: "signal_for data = Inr (signal_label data)"
proof (cases "daily_history data")
  case None
  then show ?thesis by (simp add: signal_for_def signal_label_def)
next
  case (Some h)
  show ?thesis
  proof (cases "length h \<ge> 14")
    case True
    then have "length (calculate_rsi (map Some h) 14) \<noteq> 0"
      by (simp only: length_calculate_rsi length_map)
    then have "calculate_rsi (map Some h) 14 \<noteq> []"
      by (simp only: length_0_conv not_False_eq_True)
    with Some True show ?thesis
      by (simp add: signal_for_def signal_label_def iloc_last_def)
  next
    case False
    with Some show ?thesis by (simp add: signal_for_def signal_label_def)
  qed
qed

lemma detect_loop_result:
  "\<exists>opp'. detect_loop md opp = Inr opp' \<and>
     map_of opp' = (\<lambda>a. case map_of (rev md) a of
                          Some d \<Rightarrow> Some (signal_label d)
                        | None \<Rightarrow> map_of opp a)"
proof (induction md arbitrary: opp)
  case Nil
  show ?case by simp
next
  case (Cons p md)
  obtain asset data where p: "p = (asset, data)" by (cases p)
  from Cons.IH [of "AList.update asset (signal_label data) opp"]
  obtain opp' where r: "detect_loop md (AList.update asset (signal_label data) opp) = Inr opp'"
    and m: "map_of opp' = (\<lambda>a. case map_of (rev md) a of
                          Some d \<Rightarrow> Some (signal_label d)
                        | None \<Rightarrow> map_of (AList.update asset (signal_label data) opp) a)"
    by blast
  have "detect_loop (p # md) opp = Inr opp'"
    using r by (simp add: p signal_for_total)
  moreover have "map_of opp' = (\<lambda>a. case map_of (rev (p # md)) a of
                          Some d \<Rightarrow> Some (signal_label d)
                        | None \<Rightarrow> map_of opp a)"
    unfolding m by (rule ext) (simp add: p update_conv' map_add_def split: option.splits)
  ultimately show ?case by blast
qed

lemma map_of_rev_distinct:
  "distinct (map fst xs) \<Longrightarrow> map_of (rev xs) = map_of xs"
proof (induction xs)
  case Nil
  show ?case by simp
next
  case (Cons p xs)
  obtain k v where p: "p = (k, v)" by (cases p)
  from Cons.prems have nk: "k \<notin> fst ` set xs" and d: "distinct (map fst xs)"
    by (simp_all add: p)
  have "map_of xs k = None" using nk by (simp add: map_of_eq_None_iff)
  then show ?case
    using Cons.IH [OF d]
    by (auto simp: p map_add_def fun_eq_iff split: option.splits)
qed

lemma detect_opportunities_lookup:
  assumes "distinct (map fst md)" and "map_of md asset = Some data"
  shows "\<exists>opp. detect_opportunities md = Inr opp \<and> map_of opp asset = Some (signal_label data)"
proof -
  from detect_loop_result [of md "[]"] obtain opp where
    r: "detect_loop md [] = Inr opp" and
    m: "map_of opp = (\<lambda>a. case map_of (rev md) a of
                          Some d \<Rightarrow> Some (signal_label d) | None \<Rightarrow> map_of [] a)"
    by blast
  have "map_of opp asset = Some (signal_label data)"
    using assms by (simp add: m map_of_rev_distinct)
  with r show ?thesis by (auto simp: detect_opportunities_def)
qed

text \<open>
  Claim C4. For every market-data dict and every asset in it whose entry has no
  \<open>daily_history\<close> or one with fewer than 14 closing prices, \<open>detect_opportunities\<close>
  returns a dict that maps the asset to "No signal (insufficient history)".
\<close>

theorem detect_insufficient_history:
  assumes "distinct (map fst market_data)"
    and "map_of market_data asset = Some data"
    and "daily_history data = None \<or> (\<exists>h. daily_history data = Some h \<and> length h < 14)"
  shows "\<exists>opp. detect_opportunities market_data = Inr opp \<and>
           map_of opp asset = Some ''No signal (insufficient history)''"
proof -
  have "signal_label data = ''No signal (insufficient history)''"
    using assms(3) by (auto simp: signal_label_def)
  with detect_opportunities_lookup [OF assms(1,2)] show ?thesis by simp
qed

theorem detect_insufficient_history_witness:
  "distinct (map fst [(''AAA'', \<lparr>daily_history = Some [1, 2, 3]\<rparr>)]) \<and>
   map_of [(''AAA'', \<lparr>daily_history = Some [1, 2, 3]\<rparr>)] ''AAA''
     = Some \<lparr>daily_history = Some [1, 2, 3]\<rparr> \<and>
   (\<exists>opp. detect_opportunities [(''AAA'', \<lparr>daily_history = Some [1, 2, 3]\<rparr>)] = Inr opp \<and>
           map_of opp ''AAA'' = Some ''No signal (insufficient history)'')"
  using detect_insufficient_history
    [of "[(''AAA'', \<lparr>daily_history = Some [1, 2, 3]\<rparr>)]" "''AAA''"
        "\<lparr>daily_history = Some [1, 2, 3]\<rparr>"]
  by simp

subsection \<open>Sequences without a loss\<close>

lemma rsi_gain_nonneg: "v \<in> set (rsi_gain s) \<Longrightarrow> \<exists>x\<ge>0. v = Some x"
  by (auto simp: rsi_gain_def series_where_def gt0_def split: option.splits)

lemma rsi_loss_nonneg: "v \<in> set (rsi_loss s) \<Longrightarrow> \<exists>x\<ge>0. v = Some x"
  by (auto simp: rsi_loss_def series_where_def series_neg_def lt0_def nan_neg_def
           split: option.splits)

lemma map_filter_id_nonneg:
  "\<forall>v \<in> set w. \<exists>x\<ge>0. v = Some x \<Longrightarrow> \<forall>x \<in> set (List.map_filter id w). (0::real) \<le> x"
  by (induction w) (auto simp: List.map_filter_simps)

lemma window_mean_nonneg:
  assumes "\<forall>v \<in> set w. \<exists>x\<ge>0. v = Some x" and "window_mean m w = Some y"
  shows "0 \<le> y"
proof -
  have "0 \<le> sum_list (List.map_filter id w)"
    using map_filter_id_nonneg [OF assms(1)] by (simp add: sum_list_nonneg)
  with assms(2) show ?thesis
    by (auto simp: window_mean_def Let_def split: if_splits)
qed

lemma rolling_mean_nonneg:
  assumes "\<forall>v \<in> set s. \<exists>x\<ge>0. v = Some x" and "Some y \<in> set (rolling_mean w m s)"
  shows "0 \<le> y"
proof -
  from assms(2) obtain i where
    y: "window_mean m (drop (Suc i - w) (take (Suc i) s)) = Some y"
    by (auto simp: rolling_mean_def)
  have "set (drop (Suc i - w) (take (Suc i) s)) \<subseteq> set s"
    by (meson set_drop_subset set_take_subset subset_trans)
  with assms(1) have "\<forall>v \<in> set (drop (Suc i - w) (take (Suc i) s)). \<exists>x\<ge>0. v = Some x"
    by blast
  from window_mean_nonneg [OF this y] show ?thesis .
qed

lemma rsi_rs_nonneg:
  assumes "Some r \<in> set (rsi_rs s p)"
  shows "0 \<le> r"
proof -
  from assms obtain a b where ab: "(a, b) \<in> set (zip (rsi_avg_gain s p) (replace_zero_nan (rsi_avg_loss s p)))"
    and r: "nan_div a b = Some r"
    by (auto simp: rsi_rs_def series_div_def)
  from r obtain x y where xy: "a = Some x" "b = Some y" "y \<noteq> 0" "r = x / y"
    by (auto simp: nan_div_def split: option.splits if_splits)
  from ab have "a \<in> set (rsi_avg_gain s p)" by (rule set_zip_leftD)
  then have x: "0 \<le> x"
    using rolling_mean_nonneg [of "rsi_gain s" x p 1] rsi_gain_nonneg xy(1)
    by (auto simp: rsi_avg_gain_def)
  from ab have "b \<in> set (replace_zero_nan (rsi_avg_loss s p))" by (rule set_zip_rightD)
  then have "Some y \<in> set (rsi_avg_loss s p)"
    using xy(2) by (auto simp: replace_zero_nan_def split: if_splits)
  then have "0 \<le> y"
    using rolling_mean_nonneg [of "rsi_loss s" y p 1] rsi_loss_nonneg
    by (auto simp: rsi_avg_loss_def)
  with x xy show ?thesis by simp
qed

lemma calculate_rsi_divisors:
  "(\<forall>y \<in> set (replace_zero_nan (rsi_avg_loss s p)). y \<noteq> Some 0) \<and>
   (\<forall>r \<in> set (rsi_rs s p). nan_add (Some 1) r \<noteq> Some 0)"
proof (intro conjI ballI)
  fix y assume "y \<in> set (replace_zero_nan (rsi_avg_loss s p))"
  then show "y \<noteq> Some 0" by (auto simp: replace_zero_nan_def)
next
  fix r assume r: "r \<in> set (rsi_rs s p)"
  show "nan_add (Some 1) r \<noteq> Some 0"
  proof (cases r)
    case None
    then show ?thesis by (simp add: nan_add_def)
  next
    case (Some x)
    with r rsi_rs_nonneg [of x s p] have "0 \<le> x" by simp
    with Some show ?thesis by (simp add: nan_add_def)
  qed
qed

lemma diff_from_sorted:
  "sorted (p # h) \<Longrightarrow> v \<in> set (diff_from (Some p) (map Some h)) \<Longrightarrow> \<exists>d\<ge>0. v = Some d"
proof (induction h arbitrary: p)
  case Nil
  then show ?case by simp
next
  case (Cons x h)
  from Cons.prems(1) have px: "p \<le> x" and s: "sorted (x # h)" by simp_all
  from Cons.prems(2) consider "v = nan_sub (Some x) (Some p)" | "v \<in> set (diff_from (Some x) (map Some h))"
    by auto
  then show ?case
  proof cases
    case 1
    with px show ?thesis by (simp add: nan_sub_def)
  next
    case 2
    with Cons.IH [OF s] show ?thesis by blast
  qed
qed

lemma diff_sorted:
  assumes "sorted h" and "v \<in> set (diff (map Some h))"
  shows "v = None \<or> (\<exists>d\<ge>0. v = Some d)"
proof (cases h)
  case Nil
  with assms show ?thesis by (simp add: diff_def)
next
  case (Cons x xs)
  with assms have "v = None \<or> v \<in> set (diff_from (Some x) (map Some xs))"
    by (auto simp: diff_def)
  with diff_from_sorted [of x xs v] assms(1) Cons show ?thesis by blast
qed

lemma rsi_loss_sorted:
  assumes "sorted h"
  shows "rsi_loss (map Some h) = replicate (length h) (Some 0)"
proof -
  have "\<forall>v \<in> set (diff (map Some h)). nan_neg (if lt0 v then v else Some 0) = Some 0"
    using diff_sorted [OF assms] by (fastforce simp: lt0_def nan_neg_def)
  then have "map (\<lambda>v. nan_neg (if lt0 v then v else Some 0)) (diff (map Some h))
             = replicate (length (diff (map Some h))) (Some 0)"
    by (simp add: map_replicate_const [symmetric] del: length_diff)
  then show ?thesis
    by (simp add: rsi_loss_def series_neg_def series_where_def o_def)
qed

lemma window_mean_zeros:
  "0 < n \<Longrightarrow> window_mean 1 (replicate n (Some 0)) = Some 0"
proof -
  have "List.map_filter id (replicate n (Some (0::real))) = replicate n 0"
    by (induction n) (simp_all add: List.map_filter_simps)
  moreover assume "0 < n"
  ultimately show ?thesis
    by (simp add: window_mean_def Let_def sum_list_replicate)
qed

lemma rolling_mean_zeros:
  assumes "0 < w"
  shows "rolling_mean w 1 (replicate n (Some 0)) = replicate n (Some 0)"
proof -
  have "\<forall>i \<in> set [0..<n]. window_mean 1 (drop (Suc i - w) (take (Suc i) (replicate n (Some (0::real))))) = Some 0"
  proof
    fix i assume "i \<in> set [0..<n]"
    then have i: "i < n" by simp
    have "drop (Suc i - w) (take (Suc i) (replicate n (Some (0::real))))
          = replicate (min (Suc i) n - (Suc i - w)) (Some 0)"
      by simp
    moreover have "0 < min (Suc i) n - (Suc i - w)" using i assms by arith
    ultimately show "window_mean 1 (drop (Suc i - w) (take (Suc i) (replicate n (Some (0::real))))) = Some 0"
      by (simp only: window_mean_zeros)
  qed
  then have "map (\<lambda>i. window_mean 1 (drop (Suc i - w) (take (Suc i) (replicate n (Some (0::real)))))) [0..<n]
        = map (\<lambda>i. Some 0) [0..<n]"
    by (simp only: map_eq_conv)
  then show ?thesis
    by (simp add: rolling_mean_def map_replicate_const)
qed

lemma nan_div_None [simp]: "nan_div x None = None"
  by (simp add: nan_div_def split: option.splits)

lemma calculate_rsi_sorted:
  assumes "sorted h"
  shows "calculate_rsi (map Some h) 14 = replicate (length h) None"
proof -
  have al: "rsi_avg_loss (map Some h) 14 = replicate (length h) (Some 0)"
    using rolling_mean_zeros [of 14 "length h"]
    by (simp add: rsi_avg_loss_def rsi_loss_sorted [OF assms])
  have "rsi_rs (map Some h) 14
        = map (\<lambda>(x, y). nan_div x y) (zip (rsi_avg_gain (map Some h) 14) (replicate (length h) None))"
    by (simp add: rsi_rs_def al series_div_def replace_zero_nan_def)
  also have "\<dots> = replicate (length h) None"
    by (simp add: zip_replicate2 o_def map_replicate_const)
  finally show ?thesis
    by (simp add: calculate_rsi_def nan_add_def nan_div_def nan_sub_def)
qed

lemma rsi_avg_loss_sorted:
  assumes "sorted h"
  shows "rsi_avg_loss (map Some h) 14 = replicate (length h) (Some 0)"
  using rolling_mean_zeros [of 14 "length h"]
  by (simp add: rsi_avg_loss_def rsi_loss_sorted [OF assms])

lemma signal_label_sorted:
  assumes "sorted h" and "14 \<le> length h" and "daily_history data = Some h"
  shows "signal_label data = ''No signal (insufficient data)''"
proof -
  from assms(2) have "length h \<noteq> 0" by arith
  then have "last (replicate (length h) (None :: real option)) = None"
    by (rule last_replicate)
  with assms show ?thesis
    by (simp add: signal_label_def calculate_rsi_sorted classify_rsi_def)
qed

text \<open>
  Claim C5. For every constant sequence of at least 14 closing prices, the rolling average
  loss is 0 at every position, the RSI is undefined (NaN) at every position, and
  \<open>detect_opportunities\<close> maps the asset to "No signal (insufficient data)".
\<close>

theorem detect_constant_prices:
  assumes "distinct (map fst market_data)"
    and "map_of market_data asset = Some data"
    and "daily_history data = Some (replicate n c)"
    and "14 \<le> n"
  shows "rsi_avg_loss (map Some (replicate n c)) 14 = replicate n (Some 0) \<and>
         calculate_rsi (map Some (replicate n c)) 14 = replicate n None \<and>
         (\<exists>opp. detect_opportunities market_data = Inr opp \<and>
            map_of opp asset = Some ''No signal (insufficient data)'')"
proof -
  have s: "sorted (replicate n c)" by (simp add: sorted_replicate)
  have "signal_label data = ''No signal (insufficient data)''"
    using signal_label_sorted [OF s _ assms(3)] assms(4) by simp
  with detect_opportunities_lookup [OF assms(1,2)]
    rsi_avg_loss_sorted [OF s] calculate_rsi_sorted [OF s]
  show ?thesis by simp
qed

theorem detect_constant_prices_witness:
  "distinct (map fst [(''AAA'', \<lparr>daily_history = Some (replicate 14 5)\<rparr>)]) \<and>
   map_of [(''AAA'', \<lparr>daily_history = Some (replicate 14 5)\<rparr>)] ''AAA''
     = Some \<lparr>daily_history = Some (replicate 14 5)\<rparr> \<and>
   (14::nat) \<le> 14 \<and>
   rsi_avg_loss (map Some (replicate 14 5)) 14 = replicate 14 (Some 0) \<and>
   calculate_rsi (map Some (replicate 14 5)) 14 = replicate 14 None \<and>
   (\<exists>opp. detect_opportunities [(''AAA'', \<lparr>daily_history = Some (replicate 14 5)\<rparr>)] = Inr opp \<and>
      map_of opp ''AAA'' = Some ''No signal (insufficient data)'')"
  using detect_constant_prices
    [of "[(''AAA'', \<lparr>daily_history = Some (replicate 14 5)\<rparr>)]" "''AAA''"
        "\<lparr>daily_history = Some (replicate 14 5)\<rparr>" 14 5]
  by simp

text \<open>
  Claim C1, as stated, fails: on the strictly increasing closes 1, 2, ..., 20 no loss
  occurs, the average loss 0 is replaced by NaN, the last RSI value is NaN and not above
  70, and the asset is labelled "No signal (insufficient data)", not
  "Momentum (Overbought)".
\<close>

theorem detect_increasing_counterexample:
  "sorted_wrt (<) [1, 2, 3, 4, 5, 6, 7, 8, 9, 10, 11, 12, 13, 14, 15, 16, 17, 18, 19, 20 :: real] \<and>
   length [1, 2, 3, 4, 5, 6, 7, 8, 9, 10, 11, 12, 13, 14, 15, 16, 17, 18, 19, 20 :: real] = 20 \<and>
   last (calculate_rsi (map Some
     [1, 2, 3, 4, 5, 6, 7, 8, 9, 10, 11, 12, 13, 14, 15, 16, 17, 18, 19, 20]) 14) = None \<and>
   detect_opportunities [(''AAA'', \<lparr>daily_history = Some
     [1, 2, 3, 4, 5, 6, 7, 8, 9, 10, 11, 12, 13, 14, 15, 16, 17, 18, 19, 20]\<rparr>)]
     = Inr [(''AAA'', ''No signal (insufficient data)'')] \<and>
   detect_opportunities [(''AAA'', \<lparr>daily_history = Some
     [1, 2, 3, 4, 5, 6, 7, 8, 9, 10, 11, 12, 13, 14, 15, 16, 17, 18, 19, 20]\<rparr>)]
     \<noteq> Inr [(''AAA'', ''Momentum (Overbought)'')]"
  by code_simp

text \<open>
  Claim C1, amended. For every market-data dict and every asset whose \<open>daily_history\<close>
  is a strictly increasing sequence of 20 closing prices, the last RSI value is undefined
  (NaN) and \<open>detect_opportunities\<close> maps the asset to "No signal (insufficient data)".
\<close>

theorem detect_increasing_prices:
  assumes "distinct (map fst market_data)"
    and "map_of market_data asset = Some data"
    and "daily_history data = Some h"
    and "sorted_wrt (<) h"
    and "length h = 20"
  shows "last (calculate_rsi (map Some h) 14) = None \<and>
         (\<exists>opp. detect_opportunities market_data = Inr opp \<and>
            map_of opp asset = Some ''No signal (insufficient data)'')"
proof -
  from assms(4) have s: "sorted h" by (rule strict_sorted_imp_sorted)
  have "signal_label data = ''No signal (insufficient data)''"
    using signal_label_sorted [OF s _ assms(3)] assms(5) by simp
  moreover have "last (calculate_rsi (map Some h) 14) = None"
    using assms(5) by (simp add: calculate_rsi_sorted [OF s])
  ultimately show ?thesis
    using detect_opportunities_lookup [OF assms(1,2)] by simp
qed

theorem detect_increasing_prices_witness:
  "sorted_wrt (<) (map real [1..<21]) \<and> length (map real [1..<21]) = 20 \<and>
   last (calculate_rsi (map Some (map real [1..<21])) 14) = None \<and>
   (\<exists>opp. detect_opportunities [(''AAA'', \<lparr>daily_history = Some (map real [1..<21])\<rparr>)] = Inr opp \<and>
      map_of opp ''AAA'' = Some ''No signal (insufficient data)'')"
proof -
  have s: "sorted_wrt (<) (map real [1..<21])"
    by (simp add: sorted_wrt_map)
  have l: "length (map real [1..<21]) = 20" by simp
  show ?thesis
    using s l detect_increasing_prices
      [of "[(''AAA'', \<lparr>daily_history = Some (map real [1..<21])\<rparr>)]" "''AAA''"
          "\<lparr>daily_history = Some (map real [1..<21])\<rparr>" "map real [1..<21]", OF _ _ _ s l]
    by simp
qed

section \<open>Properties of the alert rule\<close>

lemma startswith_iff: "startswith s p \<longleftrightarrow> (\<exists>suf. s = p @ suf)"
  by (induction s p rule: startswith.induct) auto

lemma py_in_iff: "py_in needle hay \<longleftrightarrow> (\<exists>pre suf. hay = pre @ needle @ suf)"
proof (induction hay)
  case Nil
  show ?case by auto
next
  case (Cons c cs)
  show ?case
  proof
    assume "py_in needle (c # cs)"
    then consider "startswith (c # cs) needle" | "py_in needle cs" by auto
    then show "\<exists>pre suf. c # cs = pre @ needle @ suf"
    proof cases
      case 1
      then obtain suf where "c # cs = needle @ suf" by (auto simp: startswith_iff)
      then have "c # cs = [] @ needle @ suf" by simp
      then show ?thesis by blast
    next
      case 2
      with Cons.IH obtain pre suf where "cs = pre @ needle @ suf" by blast
      then have "c # cs = (c # pre) @ needle @ suf" by simp
      then show ?thesis by blast
    qed
  next
    assume "\<exists>pre suf. c # cs = pre @ needle @ suf"
    then obtain pre suf where e: "c # cs = pre @ needle @ suf" by blast
    show "py_in needle (c # cs)"
    proof (cases pre)
      case Nil
      with e have "startswith (c # cs) needle" by (auto simp: startswith_iff)
      then show ?thesis by simp
    next
      case (Cons d pre')
      with e have "cs = pre' @ needle @ suf" by simp
      with Cons.IH have "py_in needle cs" by blast
      then show ?thesis by simp
    qed
  qed
qed

lemma alert_asset_compose [simp]:
  "alert_asset (compose_alert self fmp template asset signal info) = asset"
  by (simp add: compose_alert_def Let_def)

lemma process_alerts_assets:
  "(\<exists>c \<in> set (process_alerts self fmp template opportunities asset_sentiments). alert_asset c = a)
   \<longleftrightarrow> (\<exists>s. (a, s) \<in> set opportunities \<and>
          should_alert s (avg_compound (sentiment_get asset_sentiments a)))"
proof (induction opportunities)
  case Nil
  show ?case by simp
next
  case (Cons p rest)
  obtain asset signal where p: "p = (asset, signal)" by (cases p)
  show ?case
    using Cons.IH by (auto simp: p Let_def)
qed

lemma oversold_label: "py_in ''Oversold'' ''Momentum (Oversold)''"
  by simp

lemma overbought_label:
  "py_in ''Overbought'' ''Momentum (Overbought)'' \<and> \<not> py_in ''Oversold'' ''Momentum (Overbought)''"
  by simp

text \<open>With sender, password and recipients configured, every call of \<open>send_email\<close>
  hands a message to the SMTP server; without them none does.\<close>

lemma process_alerts_message:
  assumes "c \<in> set (process_alerts self fmp template opportunities asset_sentiments)"
  shows "alert_message c \<noteq> None \<longleftrightarrow>
         sender self \<noteq> [] \<and> password self \<noteq> [] \<and> recipients self \<noteq> []"
  using assms
proof (induction opportunities)
  case Nil
  then show ?case by simp
next
  case (Cons p rest)
  obtain asset signal where p: "p = (asset, signal)" by (cases p)
  from Cons.prems consider
    "c = compose_alert self fmp template asset signal (sentiment_get asset_sentiments asset)"
    | "c \<in> set (process_alerts self fmp template rest asset_sentiments)"
    by (auto simp: p Let_def split: if_splits)
  then show ?case
  proof cases
    case 1
    then show ?thesis by (simp add: compose_alert_def Let_def send_email_def)
  next
    case 2
    with Cons.IH show ?thesis by blast
  qed
qed

text \<open>
  Claim C2. For every asset of the opportunities dict with signal label \<open>s\<close> and
  sentiment record \<open>info\<close> (the entry of \<open>asset_sentiments\<close>, or the default),
  \<open>process_alerts\<close> calls \<open>send_email\<close> for that asset if and only if \<open>s\<close> contains
  "Oversold" and the average compound score is above 0.5, or \<open>s\<close> contains "Overbought"
  and it is below -0.5; with sender, password and recipients configured, that call hands
  a message to the SMTP server. In particular an alert is sent for
  ("Momentum (Oversold)", 0.6) and none for ("Momentum (Oversold)", 0.4) or
  ("Momentum (Overbought)", 0.6).
\<close>

theorem process_alerts_rule:
  assumes "distinct (map fst opportunities)"
    and "map_of opportunities asset = Some s"
    and "sentiment_get asset_sentiments asset = info"
  shows "((\<exists>c \<in> set (process_alerts self fmp template opportunities asset_sentiments).
             alert_asset c = asset)
          \<longleftrightarrow> (py_in ''Oversold'' s \<and> avg_compound info > 0.5) \<or>
               (py_in ''Overbought'' s \<and> avg_compound info < - 0.5)) \<and>
         (sender self \<noteq> [] \<and> password self \<noteq> [] \<and> recipients self \<noteq> [] \<longrightarrow>
            ((\<exists>c \<in> set (process_alerts self fmp template opportunities asset_sentiments).
                alert_asset c = asset \<and> alert_message c \<noteq> None)
             \<longleftrightarrow> (py_in ''Oversold'' s \<and> avg_compound info > 0.5) \<or>
                  (py_in ''Overbought'' s \<and> avg_compound info < - 0.5))) \<and>
         (\<exists>c \<in> set (process_alerts self fmp template [(a, ''Momentum (Oversold)'')]
                       [(a, \<lparr>avg_compound = 0.6, count = n\<rparr>)]). alert_asset c = a) \<and>
         process_alerts self fmp template [(a, ''Momentum (Oversold)'')]
           [(a, \<lparr>avg_compound = 0.4, count = n\<rparr>)] = [] \<and>
         process_alerts self fmp template [(a, ''Momentum (Overbought)'')]
           [(a, \<lparr>avg_compound = 0.6, count = n\<rparr>)] = []"
proof -
  let ?calls = "process_alerts self fmp template opportunities asset_sentiments"
  let ?rule = "(py_in ''Oversold'' s \<and> avg_compound info > 0.5) \<or>
               (py_in ''Overbought'' s \<and> avg_compound info < - 0.5)"
  have "\<And>s'. (asset, s') \<in> set opportunities \<longleftrightarrow> s' = s"
    using assms(1,2) by (metis map_of_SomeD map_of_is_SomeI option.inject)
  then have "(\<exists>c \<in> set ?calls. alert_asset c = asset) \<longleftrightarrow> should_alert s (avg_compound info)"
    by (simp add: process_alerts_assets assms(3))
  then have called: "(\<exists>c \<in> set ?calls. alert_asset c = asset) \<longleftrightarrow> ?rule"
    by (simp add: should_alert_def)
  have handed: "(\<exists>c \<in> set ?calls. alert_asset c = asset \<and> alert_message c \<noteq> None) \<longleftrightarrow> ?rule"
    if "sender self \<noteq> [] \<and> password self \<noteq> [] \<and> recipients self \<noteq> []"
  proof -
    have "\<forall>c \<in> set ?calls. alert_message c \<noteq> None"
      using that process_alerts_message [of _ self fmp template opportunities asset_sentiments]
      by blast
    then have "(\<exists>c \<in> set ?calls. alert_asset c = asset \<and> alert_message c \<noteq> None)
               \<longleftrightarrow> (\<exists>c \<in> set ?calls. alert_asset c = asset)"
      by blast
    with called show ?thesis by simp
  qed
  have e1: "\<exists>c \<in> set (process_alerts self fmp template [(a, ''Momentum (Oversold)'')]
                       [(a, \<lparr>avg_compound = 0.6, count = n\<rparr>)]). alert_asset c = a"
    using oversold_label by (simp add: should_alert_def sentiment_get_def Let_def)
  have e2: "process_alerts self fmp template [(a, ''Momentum (Oversold)'')]
           [(a, \<lparr>avg_compound = 0.4, count = n\<rparr>)] = []"
    by (simp add: should_alert_def sentiment_get_def Let_def)
  have e3: "process_alerts self fmp template [(a, ''Momentum (Overbought)'')]
           [(a, \<lparr>avg_compound = 0.6, count = n\<rparr>)] = []"
    using overbought_label by (simp add: should_alert_def sentiment_get_def Let_def)
  from called handed e1 e2 e3 show ?thesis by blast
qed

theorem process_alerts_rule_witness:
  "distinct (map fst [(''AAA'', ''Momentum (Oversold)''), (''BBB'', ''Momentum (Overbought)'')]) \<and>
   map_of [(''AAA'', ''Momentum (Oversold)''), (''BBB'', ''Momentum (Overbought)'')] ''AAA''
     = Some ''Momentum (Oversold)'' \<and>
   sentiment_get [(''AAA'', \<lparr>avg_compound = 0.6, count = 2\<rparr>)] ''AAA''
     = \<lparr>avg_compound = 0.6, count = 2\<rparr> \<and>
   (\<exists>c \<in> set (process_alerts
        \<lparr>sender = ''bot@example.com'', password = ''secret'', recipients = [''me@example.com'']\<rparr>
        (\<lambda>t. None) arg_asset
        [(''AAA'', ''Momentum (Oversold)''), (''BBB'', ''Momentum (Overbought)'')]
        [(''AAA'', \<lparr>avg_compound = 0.6, count = 2\<rparr>)]).
      alert_asset c = ''AAA'' \<and> alert_message c \<noteq> None)"
  using process_alerts_rule
    [of "[(''AAA'', ''Momentum (Oversold)''), (''BBB'', ''Momentum (Overbought)'')]" "''AAA''"
        "''Momentum (Oversold)''" "[(''AAA'', \<lparr>avg_compound = 0.6, count = 2\<rparr>)]"
        "\<lparr>avg_compound = 0.6, count = 2\<rparr>"
        "\<lparr>sender = ''bot@example.com'', password = ''secret'',
           recipients = [''me@example.com'']\<rparr>"
        "\<lambda>t. None" arg_asset]
    oversold_label
  by (simp add: sentiment_get_def)

text \<open>
  Claim C10. For every asset present in the opportunities dict but absent from the
  \<open>asset_sentiments\<close> dict, \<open>process_alerts\<close> uses the default record with average
  compound 0.0 and count 0; 0.0 satisfies neither threshold for any signal label, and no
  call of \<open>send_email\<close> is made for that asset.
\<close>

theorem process_alerts_default_sentiment:
  assumes "map_of opportunities asset = Some s"
    and "map_of asset_sentiments asset = None"
  shows "sentiment_get asset_sentiments asset = \<lparr>avg_compound = 0, count = 0\<rparr> \<and>
         (\<forall>signal. \<not> should_alert signal (avg_compound (sentiment_get asset_sentiments asset))) \<and>
         (\<forall>c \<in> set (process_alerts self fmp template opportunities asset_sentiments).
            alert_asset c \<noteq> asset)"
proof -
  have d: "sentiment_get asset_sentiments asset = \<lparr>avg_compound = 0, count = 0\<rparr>"
    using assms(2) by (simp add: sentiment_get_def)
  then have n: "\<forall>signal. \<not> should_alert signal (avg_compound (sentiment_get asset_sentiments asset))"
    by (simp add: should_alert_def)
  then have "\<not> (\<exists>c \<in> set (process_alerts self fmp template opportunities asset_sentiments).
            alert_asset c = asset)"
    by (simp only: process_alerts_assets) blast
  with d n show ?thesis by blast
qed

theorem process_alerts_default_sentiment_witness:
  "map_of [(''AAA'', ''Momentum (Oversold)'')] ''AAA'' = Some ''Momentum (Oversold)'' \<and>
   map_of [(''BBB'', \<lparr>avg_compound = 0.9, count = 3\<rparr>)] ''AAA'' = None \<and>
   sentiment_get [(''BBB'', \<lparr>avg_compound = 0.9, count = 3\<rparr>)] ''AAA''
     = \<lparr>avg_compound = 0, count = 0\<rparr> \<and>
   process_alerts
        \<lparr>sender = ''bot@example.com'', password = ''secret'', recipients = [''me@example.com'']\<rparr>
        (\<lambda>t. None) arg_asset [(''AAA'', ''Momentum (Oversold)'')]
        [(''BBB'', \<lparr>avg_compound = 0.9, count = 3\<rparr>)] = []"
  using process_alerts_default_sentiment
    [of "[(''AAA'', ''Momentum (Oversold)'')]" "''AAA''" "''Momentum (Oversold)''"
        "[(''BBB'', \<lparr>avg_compound = 0.9, count = 3\<rparr>)]"
        "\<lparr>sender = ''bot@example.com'', password = ''secret'',
           recipients = [''me@example.com'']\<rparr>"
        "\<lambda>t. None" arg_asset]
  by (simp add: sentiment_get_def should_alert_def)

section \<open>Properties of floating-point rounding\<close>

lemma pow2_powi: "pow2 e = 2 powi e"
  by (simp add: pow2_def power_int_def field_simps)

lemma pow2_pos [simp]: "0 < pow2 e"
  by (simp add: pow2_powi zero_less_power_int)

lemma pow2_Suc: "pow2 (e + 1) = 2 * pow2 e"
  by (simp add: pow2_powi power_int_add_1')

lemma pow2_pred: "2 * pow2 (e - 1) = pow2 e"
  using pow2_Suc [of "e - 1"] by simp

lemma pow2_mono: "e \<le> e' \<Longrightarrow> pow2 e \<le> pow2 e'"
  by (simp add: pow2_powi power_int_increasing)

lemma pow2_0 [simp]: "pow2 0 = 1"
  by (simp add: pow2_def)

lemma round_even_cases: "round_even a = \<lfloor>a\<rfloor> \<or> round_even a = \<lfloor>a\<rfloor> + 1"
  by (simp add: round_even_def Let_def)

lemma round_even_of_int [simp]: "round_even (of_int n) = n"
  by (simp add: round_even_def)

lemma pow2_nz [simp]: "pow2 e \<noteq> 0"
  using pow2_pos [of e] by linarith

lemma round_even_mono:
  assumes "a \<le> b"
  shows "round_even a \<le> round_even b"
proof (cases "\<lfloor>a\<rfloor> = \<lfloor>b\<rfloor>")
  case True
  with assms have "a - of_int \<lfloor>a\<rfloor> \<le> b - of_int \<lfloor>a\<rfloor>" by simp
  with True show ?thesis
    by (auto simp: round_even_def Let_def)
next
  case False
  with assms have "\<lfloor>a\<rfloor> + 1 \<le> \<lfloor>b\<rfloor>"
    using floor_mono [OF assms] by linarith
  moreover have "round_even a \<le> \<lfloor>a\<rfloor> + 1"
    using round_even_cases [of a] by linarith
  moreover have "\<lfloor>b\<rfloor> \<le> round_even b"
    using round_even_cases [of b] by linarith
  ultimately show ?thesis by linarith
qed

lemma round_even_le: "m \<le> of_int n \<Longrightarrow> real_of_int (round_even m) \<le> of_int n"
  using round_even_mono [of m "of_int n"] by simp

lemma round_even_ge: "of_int n \<le> m \<Longrightarrow> of_int n \<le> real_of_int (round_even m)"
  using round_even_mono [of "of_int n" m] by simp

lemma norm_up_props:
  "norm_up m e = (m', e') \<Longrightarrow> - 1074 \<le> e \<Longrightarrow>
     m' * pow2 e' = m * pow2 e \<and> - 1074 \<le> e' \<and> e' \<le> e \<and>
     (- 1074 < e' \<longrightarrow> 2 ^ 52 \<le> m') \<and> (m < 2 ^ 53 \<longrightarrow> m' < 2 ^ 53)"
proof (induction m e rule: norm_up.induct)
  case (1 m e)
  show ?case
  proof (cases "m < 2 ^ 52 \<and> - 1074 < e")
    case True
    with "1.prems"(1) have r: "norm_up (2 * m) (e - 1) = (m', e')"
      by (subst (asm) norm_up.simps) simp
    from True "1.prems"(2) have b: "- 1074 \<le> e - 1" by simp
    from "1.IH" [OF True r b] True show ?thesis
      using pow2_pred [of e] by (auto simp: algebra_simps)
  next
    case False
    with "1.prems"(1) have "(m, e) = (m', e')"
      by (subst (asm) norm_up.simps) (auto split: if_splits)
    with False "1.prems"(2) show ?thesis by auto
  qed
qed

lemma norm_down_props:
  "norm_down m e = (m', e') \<Longrightarrow> e \<le> 972 \<Longrightarrow>
     m' * pow2 e' = m * pow2 e \<and> e \<le> e' \<and> e' \<le> 972 \<and>
     (e' < 972 \<longrightarrow> m' < 2 ^ 53) \<and> (2 ^ 52 \<le> m \<longrightarrow> 2 ^ 52 \<le> m')"
proof (induction m e rule: norm_down.induct)
  case (1 m e)
  show ?case
  proof (cases "2 ^ 53 \<le> m \<and> e < 972")
    case True
    with "1.prems"(1) have r: "norm_down (m / 2) (e + 1) = (m', e')"
      by (subst (asm) norm_down.simps) simp
    from True have b: "e + 1 \<le> 972" by simp
    from "1.IH" [OF True r b] True show ?thesis
      using pow2_Suc [of e] by (auto simp: algebra_simps)
  next
    case False
    with "1.prems"(1) have "(m, e) = (m', e')"
      by (subst (asm) norm_down.simps) (auto split: if_splits)
    with False "1.prems"(2) show ?thesis by auto
  qed
qed

lemma normalise_normal:
  assumes "normalise x = (m, e)"
  shows "normal x m e"
proof (cases "x < 2 ^ 52")
  case True
  with assms have "norm_up x 0 = (m, e)" by (simp add: normalise_def)
  from norm_up_props [OF this] True show ?thesis
    by (auto simp: normal_def)
next
  case False
  with assms have "norm_down x 0 = (m, e)" by (simp add: normalise_def)
  from norm_down_props [OF this] False show ?thesis
    by (auto simp: normal_def)
qed

lemma normal_exp_mono:
  assumes "normal x m e" and "normal y m' e'" and "x \<le> y"
  shows "e \<le> e'"
proof (rule ccontr)
  assume "\<not> e \<le> e'"
  then have lt: "e' + 1 \<le> e" by simp
  with assms(1,2) have "2 ^ 52 \<le> m" and "m' < 2 ^ 53"
    by (auto simp: normal_def)
  have "y = m' * pow2 e'" using assms(2) by (simp add: normal_def)
  also have "\<dots> < 2 ^ 53 * pow2 e'" using \<open>m' < 2 ^ 53\<close> by simp
  also have "\<dots> = 2 ^ 52 * pow2 (e' + 1)" by (simp add: pow2_Suc)
  also have "\<dots> \<le> 2 ^ 52 * pow2 e" using pow2_mono [OF lt] by simp
  also have "\<dots> \<le> m * pow2 e" using \<open>2 ^ 52 \<le> m\<close> by simp
  also have "\<dots> = x" using assms(1) by (simp add: normal_def)
  finally show False using assms(3) by simp
qed

lemma normal_unique:
  assumes "normal x m e" and "normal x m' e'"
  shows "m' = m \<and> e' = e"
proof -
  have "e = e'"
    using normal_exp_mono [OF assms(1,2)] normal_exp_mono [OF assms(2,1)] by simp
  moreover from assms have "m * pow2 e = m' * pow2 e'" by (simp add: normal_def)
  ultimately show ?thesis by simp
qed

lemma normalise_eq:
  assumes "normal x m e"
  shows "normalise x = (m, e)"
proof -
  obtain m' e' where n: "normalise x = (m', e')" by (cases "normalise x")
  from normal_unique [OF assms normalise_normal [OF n]] n show ?thesis by simp
qed

text \<open>The rounded value of a positive real, before the overflow test.\<close>

lemma rounded_mono:
  assumes "normal x m e" and "normal y m' e'" and "x \<le> y"
  shows "of_int (round_even m) * pow2 e \<le> (of_int (round_even m') * pow2 e' :: real)"
proof (cases "e = e'")
  case True
  from assms have "m * pow2 e \<le> m' * pow2 e'" by (simp add: normal_def)
  with True have "m \<le> m'" by simp
  from round_even_mono [OF this] True show ?thesis by simp
next
  case False
  with normal_exp_mono [OF assms] have lt: "e + 1 \<le> e'" by simp
  with assms(1,2) have a: "m < 2 ^ 53" and b: "2 ^ 52 \<le> m'"
    by (auto simp: normal_def)
  have ra: "real_of_int (round_even m) \<le> 2 ^ 53"
    using round_even_le [of m "2 ^ 53"] a by simp
  have rb: "2 ^ 52 \<le> real_of_int (round_even m')"
    using round_even_ge [of "2 ^ 52" m'] b by simp
  have "of_int (round_even m) * pow2 e \<le> 2 ^ 53 * pow2 e"
    using ra by simp
  also have "\<dots> = 2 ^ 52 * pow2 (e + 1)" by (simp add: pow2_Suc)
  also have "\<dots> \<le> 2 ^ 52 * pow2 e'" using pow2_mono [OF lt] by simp
  also have "\<dots> \<le> of_int (round_even m') * pow2 e'" using rb by simp
  finally show ?thesis .
qed

lemma fle_refl_iff [simp]: "fle x x \<longleftrightarrow> x \<noteq> NaN"
  by (cases x) simp_all

lemma fl_pos_not_NaN [simp]: "fl_pos x \<noteq> NaN" and fl_pos_not_NegInf [simp]: "fl_pos x \<noteq> NegInf"
  by (simp_all add: fl_pos_def Let_def split: prod.splits)

lemma fl_pos_nonneg:
  assumes "0 < x" and "fl_pos x = Finite v"
  shows "0 \<le> v"
proof -
  obtain m e where n: "normalise x = (m, e)" by (cases "normalise x")
  from normalise_normal [OF n] assms(1) have "0 < m * pow2 e" by (simp add: normal_def)
  then have "0 < m" using pow2_pos [of e] by (simp add: zero_less_mult_iff)
  then have "0 \<le> real_of_int (round_even m)"
    using round_even_ge [of 0 m] by simp
  then have "0 \<le> real_of_int (round_even m) * pow2 e"
    by (intro mult_nonneg_nonneg) (simp_all add: less_imp_le)
  with assms(2) n show ?thesis
    by (auto simp: fl_pos_def Let_def split: if_splits)
qed

lemma fl_pos_mono:
  assumes "0 < x" and "x \<le> y"
  shows "fle (fl_pos x) (fl_pos y)"
proof -
  obtain m e where n: "normalise x = (m, e)" by (cases "normalise x")
  obtain m' e' where n': "normalise y = (m', e')" by (cases "normalise y")
  from rounded_mono [OF normalise_normal [OF n] normalise_normal [OF n'] assms(2)]
  show ?thesis
    by (auto simp: fl_pos_def Let_def n n')
qed

lemma fl_not_NaN [simp]: "fl x \<noteq> NaN"
  by (cases "fl_pos (- x)") (simp_all add: fl_def)

lemma fle_fneg: "fle a b \<Longrightarrow> fle (fneg b) (fneg a)"
  by (cases a; cases b) simp_all

lemma fl_mono:
  assumes "x \<le> y"
  shows "fle (fl x) (fl y)"
proof -
  consider "0 < x" | "x = 0" "y = 0" | "x = 0" "0 < y" | "x < 0" "0 < y" | "x < 0" "y = 0" | "x < 0" "y < 0"
    using assms by linarith
  then show ?thesis
  proof cases
    case 1
    with assms fl_pos_mono [OF 1 assms] show ?thesis by (simp add: fl_def)
  next
    case 2
    then show ?thesis by (simp add: fl_def)
  next
    case 3
    then show ?thesis
      using fl_pos_nonneg [of y] by (cases "fl_pos y") (simp_all add: fl_def)
  next
    case 4
    have a: "fle (fl x) (Finite 0)"
      using 4 fl_pos_nonneg [of "- x"] by (cases "fl_pos (- x)") (simp_all add: fl_def)
    have b: "fle (Finite 0) (fl y)"
      using 4 fl_pos_nonneg [of y] by (cases "fl_pos y") (simp_all add: fl_def)
    from a b show ?thesis by (cases "fl x"; cases "fl y") simp_all
  next
    case 5
    then show ?thesis
      using fl_pos_nonneg [of "- x"] by (cases "fl_pos (- x)") (simp_all add: fl_def)
  next
    case 6
    then have "0 < - y" "- y \<le> - x" using assms by simp_all
    from fle_fneg [OF fl_pos_mono [OF this]] 6 show ?thesis by (simp add: fl_def)
  qed
qed

lemma fl_value:
  assumes "0 < x" and "normal x m e" and "round_even m = n"
    and "of_int n * pow2 e < 2 ^ 1024"
  shows "fl x = Finite (of_int n * pow2 e)"
  using assms normalise_eq [OF assms(2)] by (simp add: fl_def fl_pos_def)

lemma fl_04: "fl 0.4 = Finite (3602879701896397 / 9007199254740992)"
  using fl_value [of "0.4" "0.4 * 2 ^ 54" "- 54" 7205759403792794]
  by (simp add: normal_def pow2_def round_even_def)

lemma fl_2_5: "fl (2 / 5) = Finite (3602879701896397 / 9007199254740992)"
  using fl_04 by simp

lemma fl_03: "fl 0.3 = Finite (5404319552844595 / 18014398509481984)"
  using fl_value [of "0.3" "0.3 * 2 ^ 54" "- 54" 5404319552844595]
  by (simp add: normal_def pow2_def round_even_def)

lemma fl_01: "fl 0.1 = Finite (3602879701896397 / 36028797018963968)"
  using fl_value [of "0.1" "0.1 * 2 ^ 56" "- 56" 7205759403792794]
  by (simp add: normal_def pow2_def round_even_def)

lemma fl_1_10: "fl (1 / 10) = Finite (3602879701896397 / 36028797018963968)"
  using fl_01 by simp

lemma fl_3_10: "fl (3 / 10) = Finite (5404319552844595 / 18014398509481984)"
  using fl_03 by simp

lemma fle_PosInf [simp]: "fle x PosInf \<longleftrightarrow> x \<noteq> NaN"
  by (cases x) simp_all

lemma fle_NegInf [simp]: "fle NegInf x \<longleftrightarrow> x \<noteq> NaN"
  by (cases x) simp_all

lemma fl_0 [simp]: "fl 0 = Finite 0"
  by (simp add: fl_def)

lemma fadd_NaN_right [simp]: "fadd x NaN = NaN"
  by (cases x) simp_all

lemma fmul_NaN_right [simp]: "fmul x NaN = NaN"
  by (cases x) simp_all

lemma fmul_mono:
  assumes "fle a b" and "0 < k"
  shows "fle (fmul a (Finite k)) (fmul b (Finite k))"
proof (cases a; cases b)
  fix x y assume "a = Finite x" "b = Finite y"
  with assms show ?thesis by (simp add: fl_mono)
qed (use assms in \<open>simp_all\<close>)

lemma fadd_mono_left:
  assumes "fle a b" and "fadd a c \<noteq> NaN" and "fadd b c \<noteq> NaN"
  shows "fle (fadd a c) (fadd b c)"
proof (cases a; cases b; cases c)
  fix x y z assume "a = Finite x" "b = Finite y" "c = Finite z"
  with assms show ?thesis by (simp add: fl_mono)
qed (use assms in \<open>simp_all\<close>)

lemma fadd_mono_right:
  assumes "fle a b" and "fadd c a \<noteq> NaN" and "fadd c b \<noteq> NaN"
  shows "fle (fadd c a) (fadd c b)"
proof (cases a; cases b; cases c)
  fix x y z assume "a = Finite x" "b = Finite y" "c = Finite z"
  with assms show ?thesis by (simp add: fl_mono)
qed (use assms in \<open>simp_all\<close>)

lemma fadd_not_NaN_left: "fadd a b \<noteq> NaN \<Longrightarrow> a \<noteq> NaN"
  by (cases a) simp_all

lemma sum3_mono_1:
  assumes "fle a1 a2" and "fadd (fadd a1 b) c \<noteq> NaN" and "fadd (fadd a2 b) c \<noteq> NaN"
  shows "fle (fadd (fadd a1 b) c) (fadd (fadd a2 b) c)"
proof -
  have "fle (fadd a1 b) (fadd a2 b)"
    using assms fadd_not_NaN_left by (intro fadd_mono_left) blast+
  then show ?thesis using assms(2,3) by (rule fadd_mono_left)
qed

lemma sum3_mono_2:
  assumes "fle b1 b2" and "fadd (fadd a b1) c \<noteq> NaN" and "fadd (fadd a b2) c \<noteq> NaN"
  shows "fle (fadd (fadd a b1) c) (fadd (fadd a b2) c)"
proof -
  have "fle (fadd a b1) (fadd a b2)"
    using assms fadd_not_NaN_left by (intro fadd_mono_right) blast+
  then show ?thesis using assms(2,3) by (rule fadd_mono_left)
qed

lemma sum3_mono_3:
  assumes "fle c1 c2" and "fadd (fadd a b) c1 \<noteq> NaN" and "fadd (fadd a b) c2 \<noteq> NaN"
  shows "fle (fadd (fadd a b) c1) (fadd (fadd a b) c2)"
  using assms by (rule fadd_mono_right)

lemma flt_imp_fle: "flt a b \<Longrightarrow> fle a b"
  by (cases a; cases b) simp_all

subsection \<open>Rounding steps of the examples\<close>

lemma fl_step_1: "fl (1 / 20) = Finite (3602879701896397 / 72057594037927936)"
  using fl_value [of "1 / 20" "1 / 20 * 2 ^ 57" "- 57" 7205759403792794]
  by (simp add: normal_def pow2_def round_even_def)

lemma fl_step_2: "fl (281474976710656 / 5629499534213119) = Finite (7205759403792795 / 144115188075855872)"
  using fl_value [of "281474976710656 / 5629499534213119" "281474976710656 / 5629499534213119 * 2 ^ 57" "- 57" 7205759403792795]
  by (simp add: normal_def pow2_def round_even_def)

lemma fl_step_3: "fl (1 / 10) = Finite (3602879701896397 / 36028797018963968)"
  using fl_value [of "1 / 10" "1 / 10 * 2 ^ 56" "- 56" 7205759403792794]
  by (simp add: normal_def pow2_def round_even_def)

lemma fl_step_4: "fl (3602879701896397 / 18014398509481984) = Finite (3602879701896397 / 18014398509481984)"
  using fl_value [of "3602879701896397 / 18014398509481984" "3602879701896397 / 18014398509481984 * 2 ^ 55" "- 55" 7205759403792794]
  by (simp add: normal_def pow2_def round_even_def)

lemma fl_step_5: "fl (29206669829258403248756220714025 / 324518553658426726783156020576256) = Finite (3242591731706757 / 36028797018963968)"
  using fl_value [of "29206669829258403248756220714025 / 324518553658426726783156020576256" "29206669829258403248756220714025 / 324518553658426726783156020576256 * 2 ^ 56" "- 56" 6485183463413514]
  by (simp add: normal_def pow2_def round_even_def)

lemma fl_step_6: "fl (10448351135499551 / 36028797018963968) = Finite (326510972984361 / 1125899906842624)"
  using fl_value [of "10448351135499551 / 36028797018963968" "10448351135499551 / 36028797018963968 * 2 ^ 54" "- 54" 5224175567749776]
  by (simp add: normal_def pow2_def round_even_def)

lemma fl_step_7: "fl (326510972984361 / 1125899906842624) = Finite (326510972984361 / 1125899906842624)"
  using fl_value [of "326510972984361 / 1125899906842624" "326510972984361 / 1125899906842624 * 2 ^ 54" "- 54" 5224175567749776]
  by (simp add: normal_def pow2_def round_even_def)

lemma fl_step_8: "fl (7301667457314602163268943389655 / 81129638414606681695789005144064) = Finite (6485183463413515 / 72057594037927936)"
  using fl_value [of "7301667457314602163268943389655 / 81129638414606681695789005144064" "7301667457314602163268943389655 / 81129638414606681695789005144064 * 2 ^ 56" "- 56" 6485183463413515]
  by (simp add: normal_def pow2_def round_even_def)

lemma fl_step_9: "fl (20896702270999103 / 72057594037927936) = Finite (326510972984361 / 1125899906842624)"
  using fl_value [of "20896702270999103 / 72057594037927936" "20896702270999103 / 72057594037927936 * 2 ^ 54" "- 54" 5224175567749776]
  by (simp add: normal_def pow2_def round_even_def)

lemma fl_step_10: "fl (19471113219505603967277331424215 / 1298074214633706907132624082305024) = Finite (1080863910568919 / 72057594037927936)"
  using fl_value [of "19471113219505603967277331424215 / 1298074214633706907132624082305024" "19471113219505603967277331424215 / 1298074214633706907132624082305024 * 2 ^ 59" "- 59" 8646911284551352]
  by (simp add: normal_def pow2_def round_even_def)

lemma fl_step_11: "fl (21977566181568023 / 72057594037927936) = Finite (2747195772696003 / 9007199254740992)"
  using fl_value [of "21977566181568023 / 72057594037927936" "21977566181568023 / 72057594037927936 * 2 ^ 54" "- 54" 5494391545392006]
  by (simp add: normal_def pow2_def round_even_def)

lemma fl_step_12: "fl (38942226439011213338874215693025 / 2596148429267413814265248164610048) = Finite (4323455642275677 / 288230376151711744)"
  using fl_value [of "38942226439011213338874215693025 / 2596148429267413814265248164610048" "38942226439011213338874215693025 / 2596148429267413814265248164610048 * 2 ^ 59" "- 59" 8646911284551354]
  by (simp add: normal_def pow2_def round_even_def)

lemma fl_step_13: "fl (87910264726272093 / 288230376151711744) = Finite (2747195772696003 / 9007199254740992)"
  using fl_value [of "87910264726272093 / 288230376151711744" "87910264726272093 / 288230376151711744 * 2 ^ 54" "- 54" 5494391545392006]
  by (simp add: normal_def pow2_def round_even_def)

lemma fl_step_14: "fl (12980742146337070512478121581609 / 324518553658426726783156020576256) = Finite (1441151880758559 / 36028797018963968)"
  using fl_value [of "12980742146337070512478121581609 / 324518553658426726783156020576256" "12980742146337070512478121581609 / 324518553658426726783156020576256 * 2 ^ 57" "- 57" 5764607523034236]
  by (simp add: normal_def pow2_def round_even_def)

lemma fl_step_15: "fl (1441151880758559 / 36028797018963968) = Finite (1441151880758559 / 36028797018963968)"
  using fl_value [of "1441151880758559 / 36028797018963968" "1441151880758559 / 36028797018963968 * 2 ^ 57" "- 57" 5764607523034236]
  by (simp add: normal_def pow2_def round_even_def)

lemma fl_step_16: "fl (3602879701896397 / 36028797018963968) = Finite (3602879701896397 / 36028797018963968)"
  using fl_value [of "3602879701896397 / 36028797018963968" "3602879701896397 / 36028797018963968 * 2 ^ 56" "- 56" 7205759403792794]
  by (simp add: normal_def pow2_def round_even_def)

lemma fl_step_17: "fl (3422735716801577 / 18014398509481984) = Finite (3422735716801577 / 18014398509481984)"
  using fl_value [of "3422735716801577 / 18014398509481984" "3422735716801577 / 18014398509481984 * 2 ^ 55" "- 55" 6845471433603154]
  by (simp add: normal_def pow2_def round_even_def)

lemma fl_step_18: "fl (19471113219505603967277331424215 / 649037107316853453566312041152512) = Finite (1080863910568919 / 36028797018963968)"
  using fl_value [of "19471113219505603967277331424215 / 649037107316853453566312041152512" "19471113219505603967277331424215 / 649037107316853453566312041152512 * 2 ^ 58" "- 58" 8646911284551352]
  by (simp add: normal_def pow2_def round_even_def)

lemma fl_step_19: "fl (8286623314361713 / 36028797018963968) = Finite (8286623314361713 / 36028797018963968)"
  using fl_value [of "8286623314361713 / 36028797018963968" "8286623314361713 / 36028797018963968 * 2 ^ 55" "- 55" 8286623314361713]
  by (simp add: normal_def pow2_def round_even_def)

lemma fl_step_20: "fl (1261007895663739 / 18014398509481984) = Finite (1261007895663739 / 18014398509481984)"
  using fl_value [of "1261007895663739 / 18014398509481984" "1261007895663739 / 18014398509481984 * 2 ^ 56" "- 56" 5044031582654956]
  by (simp add: normal_def pow2_def round_even_def)

lemmas fl_steps =
  fl_step_1 fl_step_2 fl_step_3 fl_step_4 fl_step_5 fl_step_6 fl_step_7
  fl_step_8 fl_step_9 fl_step_10 fl_step_11 fl_step_12 fl_step_13 fl_step_14
  fl_step_15 fl_step_16 fl_step_17 fl_step_18 fl_step_19 fl_step_20

section \<open>Properties of the asset finder\<close>

lemma ticker_score_asset [simp]: "ticker (score_asset info data) = ticker data"
  by (simp add: score_asset_def asset_data.defs scored_asset.defs)

lemma score_score_asset:
  "score (score_asset info data) =
     fadd (fadd (fmul (sentiment_weight info) (fl 0.4)) (fmul (volatility data) (fl 0.3)))
          (fmul (pe_score (pe_ratio data)) (fl 0.3))"
  by (simp add: score_asset_def asset_data.defs scored_asset.defs)

lemma pe_score_cases:
  "pe_score pe = (case pe of Finite r \<Rightarrow> if r > 0 then fl (1 / r) else Finite 0 | _ \<Rightarrow> Finite 0)"
  by (simp add: pe_score_def pyfloat_gt0_def split: pyfloat.splits)

lemma calculate_volatility_one_row [simp]: "calculate_volatility [c] = Finite 0"
  by (simp add: calculate_volatility_def)

lemma calculate_volatility_two_rows [simp]: "calculate_volatility [c, c'] = NaN"
  by (simp add: calculate_volatility_def pct_change_def dropna_def series_std_def)

lemma fetch_asset_data_ticker: "fetch_asset_data yf t = Some d \<Longrightarrow> ticker d = t"
  by (auto simp: fetch_asset_data_def Let_def split: option.splits if_splits)

lemma score_loop_eq:
  "score_loop yf sents ts acc =
     acc @ List.map_filter
             (\<lambda>t. map_option (score_asset (sentiment_get sents t)) (fetch_asset_data yf t)) ts"
proof (induction ts arbitrary: acc)
  case Nil
  show ?case by (simp add: List.map_filter_simps)
next
  case (Cons t ts)
  show ?case
    by (cases "fetch_asset_data yf t") (simp_all add: Cons.IH List.map_filter_simps)
qed

lemma score_loop_set:
  "e \<in> set (score_loop yf sents ts []) \<longleftrightarrow>
     (\<exists>t d. t \<in> set ts \<and> fetch_asset_data yf t = Some d \<and>
            e = score_asset (sentiment_get sents t) d)"
  by (force simp: score_loop_eq List.map_filter_def)

text \<open>
  Claim C3. For every candidate ticker with fetched volatility \<open>v\<close>, forward P/E \<open>pe\<close>
  and sentiment record \<open>info\<close> (the entry of \<open>asset_sentiments\<close>, or the default),
  the loop of \<open>find_interesting_assets\<close> records under that ticker the score
  \<open>w * 0.4 + v * 0.3 + p * 0.3\<close>, evaluated in double arithmetic in this order, where
  \<open>w\<close> is the absolute average compound score if the count is positive and 0.1
  otherwise, and \<open>p\<close> is \<open>1 / pe\<close> if \<open>pe\<close> is finite and positive and 0 otherwise.
\<close>

theorem composite_score_formula:
  assumes "t \<in> set (stock_candidates self)"
    and "fetch_asset_data yf t = Some d"
    and "sentiment_get asset_sentiments t = info"
  shows "(\<exists>e \<in> set (score_loop yf asset_sentiments (stock_candidates self) []). ticker e = t) \<and>
         (\<forall>e \<in> set (score_loop yf asset_sentiments (stock_candidates self) []).
            ticker e = t \<longrightarrow>
            score e =
              fadd (fadd (fmul (if count info > 0 then Finite \<bar>avg_compound info\<bar> else fl 0.1)
                               (fl 0.4))
                         (fmul (volatility d) (fl 0.3)))
                   (fmul (case pe_ratio d of
                            Finite r \<Rightarrow> if r > 0 then fl (1 / r) else Finite 0
                          | PosInf \<Rightarrow> Finite 0 | NegInf \<Rightarrow> Finite 0 | NaN \<Rightarrow> Finite 0)
                         (fl 0.3)))"
proof (intro conjI ballI impI)
  have "score_asset info d \<in> set (score_loop yf asset_sentiments (stock_candidates self) [])"
    using assms by (auto simp: score_loop_set)
  moreover have "ticker (score_asset info d) = t"
    using fetch_asset_data_ticker [OF assms(2)] by simp
  ultimately show "\<exists>e \<in> set (score_loop yf asset_sentiments (stock_candidates self) []). ticker e = t"
    by blast
next
  fix e
  assume e: "e \<in> set (score_loop yf asset_sentiments (stock_candidates self) [])"
    and te: "ticker e = t"
  from e obtain t' d' where f: "fetch_asset_data yf t' = Some d'"
    and e': "e = score_asset (sentiment_get asset_sentiments t') d'"
    by (auto simp: score_loop_set)
  from te e' fetch_asset_data_ticker [OF f] have "t' = t" by simp
  with f assms(2) have "d' = d" by simp
  with e' \<open>t' = t\<close> assms(3) have "e = score_asset info d" by simp
  then show "score e =
              fadd (fadd (fmul (if count info > 0 then Finite \<bar>avg_compound info\<bar> else fl 0.1)
                               (fl 0.4))
                         (fmul (volatility d) (fl 0.3)))
                   (fmul (case pe_ratio d of
                            Finite r \<Rightarrow> if r > 0 then fl (1 / r) else Finite 0
                          | PosInf \<Rightarrow> Finite 0 | NegInf \<Rightarrow> Finite 0 | NaN \<Rightarrow> Finite 0)
                         (fl 0.3))"
    by (simp add: score_score_asset sentiment_weight_def pe_score_cases split: pyfloat.splits)
qed

theorem composite_score_formula_witness:
  "''AAA'' \<in> set (stock_candidates
      \<lparr>target_assets = 5, max_candidates = 10, stock_candidates = [''AAA'']\<rparr>) \<and>
   fetch_asset_data
     (\<lambda>t. Some \<lparr>history_close = [10], info_marketCap = Some 1000,
                 info_forwardPE = Some (Finite 10)\<rparr>) ''AAA''
     = Some \<lparr>ticker = ''AAA'', market_cap = 1000, volatility = Finite 0, pe_ratio = Finite 10\<rparr> \<and>
   sentiment_get [(''AAA'', \<lparr>avg_compound = - 0.5, count = 2\<rparr>)] ''AAA''
     = \<lparr>avg_compound = - 0.5, count = 2\<rparr> \<and>
   map score (score_loop
        (\<lambda>t. Some \<lparr>history_close = [10], info_marketCap = Some 1000,
                    info_forwardPE = Some (Finite 10)\<rparr>)
        [(''AAA'', \<lparr>avg_compound = - 0.5, count = 2\<rparr>)] [''AAA''] [])
     = [Finite (8286623314361713 / 2 ^ 55)]"
proof -
  have f: "fetch_asset_data
     (\<lambda>t. Some \<lparr>history_close = [10], info_marketCap = Some 1000,
                 info_forwardPE = Some (Finite 10)\<rparr>) ''AAA''
     = Some \<lparr>ticker = ''AAA'', market_cap = 1000, volatility = Finite 0, pe_ratio = Finite 10\<rparr>"
    by (simp add: fetch_asset_data_def calculate_volatility_def)
  have g: "sentiment_get [(''AAA'', \<lparr>avg_compound = - 0.5, count = 2\<rparr>)] ''AAA''
     = \<lparr>avg_compound = - 0.5, count = 2\<rparr>"
    by (simp add: sentiment_get_def)
  have m: "''AAA'' \<in> set (stock_candidates
      \<lparr>target_assets = 5, max_candidates = 10, stock_candidates = [''AAA'']\<rparr>)"
    by simp
  from composite_score_formula [OF m f g] f g m show ?thesis
    by (simp add: fl_2_5 fl_3_10 fl_1_10 fl_steps)
qed

text \<open>
  Claim C9, as stated, fails in the strict parts: a larger volatility and a larger inverse
  P/E can give the same score, because the sums are rounded. With sentiment weight 0.5 and
  no P/E score, the volatility 0.3 and the next double above it both give
  0.29000000000000004; with volatility 0.3, the P/E 20 and the next double below it (a
  larger inverse) both give 0.30500000000000005. And with the volatility of a history of
  two rows, which is NaN, the score is NaN for every sentiment magnitude, and NaN is not at
  least as large as NaN.
\<close>

theorem composite_score_strict_counterexample:
  "flt (Finite (5404319552844595 / 2 ^ 54)) (Finite (5404319552844596 / 2 ^ 54)) \<and>
   score (score_asset \<lparr>avg_compound = 0.5, count = 1\<rparr>
            \<lparr>ticker = ''AAA'', market_cap = 1, volatility = Finite (5404319552844595 / 2 ^ 54),
             pe_ratio = PosInf\<rparr>)
     = Finite (326510972984361 / 2 ^ 50) \<and>
   score (score_asset \<lparr>avg_compound = 0.5, count = 1\<rparr>
            \<lparr>ticker = ''AAA'', market_cap = 1, volatility = Finite (5404319552844596 / 2 ^ 54),
             pe_ratio = PosInf\<rparr>)
     = Finite (326510972984361 / 2 ^ 50) \<and>
   flt (pe_score (Finite 20)) (pe_score (Finite (5629499534213119 / 2 ^ 48))) \<and>
   score (score_asset \<lparr>avg_compound = 0.5, count = 1\<rparr>
            \<lparr>ticker = ''AAA'', market_cap = 1, volatility = Finite (5404319552844595 / 2 ^ 54),
             pe_ratio = Finite 20\<rparr>)
     = Finite (2747195772696003 / 2 ^ 53) \<and>
   score (score_asset \<lparr>avg_compound = 0.5, count = 1\<rparr>
            \<lparr>ticker = ''AAA'', market_cap = 1, volatility = Finite (5404319552844595 / 2 ^ 54),
             pe_ratio = Finite (5629499534213119 / 2 ^ 48)\<rparr>)
     = Finite (2747195772696003 / 2 ^ 53) \<and>
   \<not> fle (score (score_asset \<lparr>avg_compound = 0.25, count = 1\<rparr>
                  \<lparr>ticker = ''AAA'', market_cap = 1, volatility = calculate_volatility [10, 11],
                   pe_ratio = PosInf\<rparr>))
           (score (score_asset \<lparr>avg_compound = 0.5, count = 1\<rparr>
                  \<lparr>ticker = ''AAA'', market_cap = 1, volatility = calculate_volatility [10, 11],
                   pe_ratio = PosInf\<rparr>))"
  by (simp add: score_score_asset sentiment_weight_def pe_score_cases fl_2_5 fl_3_10 fl_steps)

text \<open>
  Claim C9, amended. The composite score is monotonically non-decreasing in each of its
  three inputs separately, for scores that are numbers (not NaN): with counts above 0 and
  the same volatility and P/E score, a larger absolute average compound score gives a
  score at least as large; with the same sentiment weight and P/E score, a larger
  volatility gives a score at least as large; with the same sentiment weight and
  volatility, a larger P/E score (inverse P/E) gives a score at least as large.
\<close>

theorem composite_score_monotone:
  "(count i1 > 0 \<and> count i2 > 0 \<and> \<bar>avg_compound i1\<bar> < \<bar>avg_compound i2\<bar> \<and>
      volatility d1 = volatility d2 \<and> pe_score (pe_ratio d1) = pe_score (pe_ratio d2) \<and>
      score (score_asset i1 d1) \<noteq> NaN \<and> score (score_asset i2 d2) \<noteq> NaN
      \<longrightarrow> fle (score (score_asset i1 d1)) (score (score_asset i2 d2))) \<and>
   (sentiment_weight i1 = sentiment_weight i2 \<and> flt (volatility d1) (volatility d2) \<and>
      pe_score (pe_ratio d1) = pe_score (pe_ratio d2) \<and>
      score (score_asset i1 d1) \<noteq> NaN \<and> score (score_asset i2 d2) \<noteq> NaN
      \<longrightarrow> fle (score (score_asset i1 d1)) (score (score_asset i2 d2))) \<and>
   (sentiment_weight i1 = sentiment_weight i2 \<and> volatility d1 = volatility d2 \<and>
      flt (pe_score (pe_ratio d1)) (pe_score (pe_ratio d2)) \<and>
      score (score_asset i1 d1) \<noteq> NaN \<and> score (score_asset i2 d2) \<noteq> NaN
      \<longrightarrow> fle (score (score_asset i1 d1)) (score (score_asset i2 d2)))"
proof -
  let ?c4 = "Finite (3602879701896397 / 9007199254740992)"
  let ?c3 = "Finite (5404319552844595 / 18014398509481984)"
  have expr: "score (score_asset i d) =
      fadd (fadd (fmul (sentiment_weight i) ?c4) (fmul (volatility d) ?c3))
           (fmul (pe_score (pe_ratio d)) ?c3)" for i d
    by (simp add: score_score_asset fl_2_5 fl_3_10)
  have c4: "fle a b \<Longrightarrow> fle (fmul a ?c4) (fmul b ?c4)" for a b
    by (rule fmul_mono) simp_all
  have c3: "fle a b \<Longrightarrow> fle (fmul a ?c3) (fmul b ?c3)" for a b
    by (rule fmul_mono) simp_all
  have w: "fle (sentiment_weight i1) (sentiment_weight i2)"
    if "count i1 > 0" "count i2 > 0" "\<bar>avg_compound i1\<bar> < \<bar>avg_compound i2\<bar>"
    using that by (simp add: sentiment_weight_def)
  have 1: "fle (score (score_asset i1 d1)) (score (score_asset i2 d2))"
    if "count i1 > 0" "count i2 > 0" "\<bar>avg_compound i1\<bar> < \<bar>avg_compound i2\<bar>"
       "volatility d1 = volatility d2" "pe_score (pe_ratio d1) = pe_score (pe_ratio d2)"
       "score (score_asset i1 d1) \<noteq> NaN" "score (score_asset i2 d2) \<noteq> NaN"
  proof -
    have "fle (fmul (sentiment_weight i1) ?c4) (fmul (sentiment_weight i2) ?c4)"
      using that(1-3) by (intro c4 w)
    then show ?thesis
      using that(4-7) unfolding expr by (auto intro!: sum3_mono_1)
  qed
  have 2: "fle (score (score_asset i1 d1)) (score (score_asset i2 d2))"
    if "sentiment_weight i1 = sentiment_weight i2" "flt (volatility d1) (volatility d2)"
       "pe_score (pe_ratio d1) = pe_score (pe_ratio d2)"
       "score (score_asset i1 d1) \<noteq> NaN" "score (score_asset i2 d2) \<noteq> NaN"
  proof -
    have "fle (fmul (volatility d1) ?c3) (fmul (volatility d2) ?c3)"
      using that(2) by (intro c3 flt_imp_fle)
    then show ?thesis
      using that(1,3-5) unfolding expr by (auto intro!: sum3_mono_2)
  qed
  have 3: "fle (score (score_asset i1 d1)) (score (score_asset i2 d2))"
    if "sentiment_weight i1 = sentiment_weight i2" "volatility d1 = volatility d2"
       "flt (pe_score (pe_ratio d1)) (pe_score (pe_ratio d2))"
       "score (score_asset i1 d1) \<noteq> NaN" "score (score_asset i2 d2) \<noteq> NaN"
  proof -
    have "fle (fmul (pe_score (pe_ratio d1)) ?c3) (fmul (pe_score (pe_ratio d2)) ?c3)"
      using that(3) by (intro c3 flt_imp_fle)
    then show ?thesis
      using that(1,2,4,5) unfolding expr by (auto intro!: sum3_mono_3)
  qed
  from 1 2 3 show ?thesis by blast
qed

theorem composite_score_monotone_witness:
  "fle (score (score_asset \<lparr>avg_compound = 0.25, count = 1\<rparr>
            \<lparr>ticker = ''AAA'', market_cap = 1, volatility = Finite (5404319552844595 / 2 ^ 54),
             pe_ratio = PosInf\<rparr>))
       (score (score_asset \<lparr>avg_compound = - 0.5, count = 3\<rparr>
            \<lparr>ticker = ''BBB'', market_cap = 2, volatility = Finite (5404319552844595 / 2 ^ 54),
             pe_ratio = PosInf\<rparr>)) \<and>
   fle (score (score_asset \<lparr>avg_compound = 0.5, count = 1\<rparr>
            \<lparr>ticker = ''AAA'', market_cap = 1, volatility = Finite (5404319552844595 / 2 ^ 54),
             pe_ratio = PosInf\<rparr>))
       (score (score_asset \<lparr>avg_compound = 0.5, count = 1\<rparr>
            \<lparr>ticker = ''AAA'', market_cap = 1, volatility = Finite (5404319552844596 / 2 ^ 54),
             pe_ratio = PosInf\<rparr>)) \<and>
   fle (score (score_asset \<lparr>avg_compound = 0.5, count = 1\<rparr>
            \<lparr>ticker = ''AAA'', market_cap = 1, volatility = Finite (5404319552844595 / 2 ^ 54),
             pe_ratio = Finite 20\<rparr>))
       (score (score_asset \<lparr>avg_compound = 0.5, count = 1\<rparr>
            \<lparr>ticker = ''AAA'', market_cap = 1, volatility = Finite (5404319552844595 / 2 ^ 54),
             pe_ratio = Finite (5629499534213119 / 2 ^ 48)\<rparr>))"
  using
    composite_score_monotone
      [of "\<lparr>avg_compound = 0.25, count = 1\<rparr>" "\<lparr>avg_compound = - 0.5, count = 3\<rparr>"
          "\<lparr>ticker = ''AAA'', market_cap = 1, volatility = Finite (5404319552844595 / 2 ^ 54),
             pe_ratio = PosInf\<rparr>"
          "\<lparr>ticker = ''BBB'', market_cap = 2, volatility = Finite (5404319552844595 / 2 ^ 54),
             pe_ratio = PosInf\<rparr>"]
    composite_score_monotone
      [of "\<lparr>avg_compound = 0.5, count = 1\<rparr>" "\<lparr>avg_compound = 0.5, count = 1\<rparr>"
          "\<lparr>ticker = ''AAA'', market_cap = 1, volatility = Finite (5404319552844595 / 2 ^ 54),
             pe_ratio = PosInf\<rparr>"
          "\<lparr>ticker = ''AAA'', market_cap = 1, volatility = Finite (5404319552844596 / 2 ^ 54),
             pe_ratio = PosInf\<rparr>"]
    composite_score_monotone
      [of "\<lparr>avg_compound = 0.5, count = 1\<rparr>" "\<lparr>avg_compound = 0.5, count = 1\<rparr>"
          "\<lparr>ticker = ''AAA'', market_cap = 1, volatility = Finite (5404319552844595 / 2 ^ 54),
             pe_ratio = Finite 20\<rparr>"
          "\<lparr>ticker = ''AAA'', market_cap = 1, volatility = Finite (5404319552844595 / 2 ^ 54),
             pe_ratio = Finite (5629499534213119 / 2 ^ 48)\<rparr>"]
  by (simp add: score_score_asset sentiment_weight_def pe_score_cases fl_2_5 fl_3_10 fl_steps)

subsection \<open>Scores that are numbers\<close>

lemma fl_nonneg: "0 \<le> x \<Longrightarrow> fle (Finite 0) (fl x)"
  using fl_mono [of 0 x] by simp

lemma fadd_nonneg: "fle (Finite 0) a \<Longrightarrow> fle (Finite 0) b \<Longrightarrow> fle (Finite 0) (fadd a b)"
  by (cases a; cases b) (simp_all add: fl_nonneg)

lemma fmul_nonneg: "fle (Finite 0) a \<Longrightarrow> 0 < k \<Longrightarrow> fle (Finite 0) (fmul a (Finite k))"
  by (cases a) (simp_all add: fl_nonneg)

lemma fle_not_NaN: "fle a b \<Longrightarrow> b \<noteq> NaN"
  by (cases b) simp_all

lemma sentiment_weight_nonneg: "fle (Finite 0) (sentiment_weight i)"
  by (simp add: sentiment_weight_def fl_1_10)

lemma pe_score_nonneg: "fle (Finite 0) (pe_score pe)"
  by (simp add: pe_score_cases fl_nonneg split: pyfloat.splits)

lemma score_nonneg:
  "fle (Finite 0) (volatility d) \<Longrightarrow> fle (Finite 0) (score (score_asset i d))"
  by (simp add: score_score_asset fl_2_5 fl_3_10 fadd_nonneg fmul_nonneg
        sentiment_weight_nonneg pe_score_nonneg)

lemma finite_values_map_Finite [simp]: "finite_values (map Finite rs) = rs"
  by (induction rs) (simp_all add: finite_values_def List.map_filter_simps)

lemma series_std_map_Finite:
  "2 \<le> length rs \<Longrightarrow>
     series_std (map Finite rs)
       = Finite (sqrt (sum_list (map (\<lambda>v. (v - sum_list rs / real (length rs)) ^ 2) rs)
                         / (real (length rs) - 1)))"
proof -
  have "filter (\<lambda>x. x \<noteq> NaN) (map Finite rs) = map Finite rs"
    by (induction rs) simp_all
  moreover have "\<not> list_ex (\<lambda>x. x = PosInf \<or> x = NegInf) (map Finite rs)"
    by (induction rs) simp_all
  ultimately show ?thesis
    if "2 \<le> length rs" using that by (simp add: series_std_def Let_def)
qed

lemma series_std_nonneg:
  assumes "2 \<le> length rs"
  shows "fle (Finite 0) (series_std (map Finite rs))"
proof -
  have "0 \<le> sum_list (map (\<lambda>v. (v - sum_list rs / real (length rs)) ^ 2) rs)"
    by (rule sum_list_nonneg) auto
  moreover have "0 \<le> real (length rs) - 1"
    using assms by simp
  ultimately show ?thesis
    using assms by (simp add: series_std_map_Finite)
qed

lemma pct_change_from_Finite:
  "prev \<noteq> 0 \<Longrightarrow> 0 \<notin> set cs \<Longrightarrow>
     \<exists>rs. pct_change_from prev cs = map Finite rs \<and> length rs = length cs"
proof (induction cs arbitrary: prev)
  case Nil
  show ?case by simp
next
  case (Cons c cs)
  then obtain rs where "pct_change_from c cs = map Finite rs" "length rs = length cs"
    by fastforce
  then have "pct_change_from prev (c # cs) = map Finite ((c / prev - 1) # rs) \<and>
             length ((c / prev - 1) # rs) = length (c # cs)"
    using Cons.prems by simp
  then show ?case by blast
qed

text \<open>With the returns and their deviation taken exactly, as \<open>series_std\<close> does, the
  volatility is a number, and not negative, for a history of any length but 2 without a
  zero closing price.\<close>

lemma calculate_volatility_nonneg:
  assumes "length h \<noteq> 2" and "0 \<notin> set h"
  shows "fle (Finite 0) (calculate_volatility h)"
proof (cases "length h < 2")
  case True
  then show ?thesis by (simp add: calculate_volatility_def)
next
  case False
  then obtain c cs where h: "h = c # cs" by (cases h) auto
  with assms obtain rs where rs: "pct_change_from c cs = map Finite rs" "length rs = length cs"
    using pct_change_from_Finite [of c cs] by auto
  have "length h = Suc (length rs)"
    using h rs(2) by simp
  with False assms(1) have "2 \<le> length rs"
    by arith
  then have "fle (Finite 0) (series_std (map Finite rs))"
    by (rule series_std_nonneg)
  moreover have "dropna (pct_change h) = map Finite rs"
    by (simp add: h pct_change_def dropna_def rs(1))
  ultimately show ?thesis
    using False by (simp add: calculate_volatility_def sqrt_252_def fmul_nonneg)
qed

lemma score_loop_not_NaN:
  assumes "\<forall>t \<in> set ts. \<forall>a. yf t = Some a \<longrightarrow>
             length (history_close a) \<noteq> 2 \<and> 0 \<notin> set (history_close a)"
  shows "\<forall>d \<in> set (score_loop yf sents ts []). score d \<noteq> NaN"
proof
  fix e assume "e \<in> set (score_loop yf sents ts [])"
  then obtain t d where t: "t \<in> set ts" and f: "fetch_asset_data yf t = Some d"
    and e: "e = score_asset (sentiment_get sents t) d"
    by (auto simp: score_loop_set)
  from f obtain a where a: "yf t = Some a"
    and v: "volatility d = calculate_volatility (history_close a)"
    by (auto simp: fetch_asset_data_def Let_def split: option.splits if_splits)
  from assms t a have "fle (Finite 0) (calculate_volatility (history_close a))"
    by (intro calculate_volatility_nonneg) auto
  then have "fle (Finite 0) (score e)"
    unfolding e by (intro score_nonneg) (simp add: v)
  then show "score e \<noteq> NaN" by (rule fle_not_NaN)
qed

subsection \<open>Ranking\<close>


lemma desc_key_eq [simp]: "desc_key a = desc_key b \<longleftrightarrow> a = b"
  by (cases a; cases b) (simp_all add: desc_key_def)








lemma asc_run_le: "asc_run prev ks \<le> length ks"
  by (induction ks arbitrary: prev) simp_all

lemma desc_run_le: "desc_run prev ks \<le> length ks"
  by (induction ks arbitrary: prev) simp_all











section \<open>Properties of the entry point\<close>

text \<open>
  Claim C8. If \<open>find_interesting_assets\<close> returns an empty list, \<open>main\<close> continues with
  the first 5 entries of the hardcoded list of 10 tickers.
\<close>

theorem main_fallback:
  assumes "AssetFinder_init (env_api_key env) (env_losers env) 5 10 = Inr finder"
    and "find_interesting_assets finder (env_yf env)
           (aggregate_sentiment_by_asset (env_polarity env)
              (env_news env (stock_candidates finder)) (stock_candidates finder)) = []"
  shows "main_assets env = Inr (take 5 fallback_tickers) \<and>
         length fallback_tickers = 10 \<and>
         take 5 fallback_tickers = [''DZSI'', ''BBWI'', ''ETSY'', ''SENS'', ''NGVC'']"
  using assms by (simp add: main_assets_def Let_def fallback_tickers_def)

theorem main_fallback_witness:
  "AssetFinder_init (Some ''key'') None 5 10
     = Inr \<lparr>target_assets = 5, max_candidates = 10, stock_candidates = fallback_tickers\<rparr> \<and>
   main_assets \<lparr>env_api_key = Some ''key'', env_losers = None, env_yf = (\<lambda>t. None),
                env_news = (\<lambda>assets. []),
                env_polarity = (\<lambda>text. \<lparr>neg = 0, neu = 1, pos = 0, compound = 0\<rparr>)\<rparr>
     = Inr [''DZSI'', ''BBWI'', ''ETSY'', ''SENS'', ''NGVC'']"
proof -
  let ?env = "\<lparr>env_api_key = Some ''key'', env_losers = None, env_yf = (\<lambda>t. None),
                env_news = (\<lambda>assets. []),
                env_polarity = (\<lambda>text. \<lparr>neg = 0, neu = 1, pos = 0, compound = 0\<rparr>)\<rparr>"
  let ?finder = "\<lparr>target_assets = 5, max_candidates = 10, stock_candidates = fallback_tickers\<rparr>"
  have h: "AssetFinder_init (env_api_key ?env) (env_losers ?env) 5 10 = Inr ?finder"
    by (simp add: AssetFinder_init_def fetch_biggest_losers_def)
  have "score_loop (\<lambda>t. None) sents ts [] = []" for sents ts
    by (induction ts) (simp_all add: fetch_asset_data_def)
  then have e: "find_interesting_assets ?finder (env_yf ?env)
           (aggregate_sentiment_by_asset (env_polarity ?env)
              (env_news ?env (stock_candidates ?finder)) (stock_candidates ?finder)) = []"
    by (simp add: find_interesting_assets_def ranked_assets_def slice_to_def
          sort_by_score_desc_def small_sort_def)
  from main_fallback [OF h e] h show ?thesis
    by simp
qed

section \<open>Properties of the sentiment aggregation\<close>

lemma update_fresh: "k \<notin> fst ` set al \<Longrightarrow> AList.update k v al = al @ [(k, v)]"
  by (induction al) auto

lemma analyze_loop_eq:
  "distinct (map fst news) \<Longrightarrow> fst ` set news \<inter> fst ` set acc = {} \<Longrightarrow>
   analyze_loop polarity news acc
     = acc @ map (\<lambda>(t, i). (t, polarity (t @ '' '' @ description i))) news"
proof (induction news arbitrary: acc)
  case Nil
  show ?case by simp
next
  case (Cons p news)
  obtain t i where p: "p = (t, i)" by (cases p)
  from Cons.prems have fresh: "t \<notin> fst ` set acc" and d: "distinct (map fst news)"
    and tn: "t \<notin> fst ` set news" and disj: "fst ` set news \<inter> fst ` set acc = {}"
    by (auto simp: p)
  let ?acc = "acc @ [(t, polarity (t @ '' '' @ description i))]"
  have "fst ` set news \<inter> fst ` set ?acc = {}"
    using tn disj by auto
  from Cons.IH [OF d this] show ?case
    by (simp add: p update_fresh [OF fresh])
qed

lemma analyze_sentiment_eq:
  "distinct (map fst news) \<Longrightarrow>
   analyze_sentiment polarity news = map (\<lambda>(t, i). (t, polarity (t @ '' '' @ description i))) news"
  using analyze_loop_eq [of news "[]" polarity] by (simp add: analyze_sentiment_def)

lemma fold_update_const:
  "map_of (fold (\<lambda>k d. AList.update k v d) ks d0) = (\<lambda>k. if k \<in> set ks then Some v else map_of d0 k) \<and>
   (distinct (map fst d0) \<longrightarrow> distinct (map fst (fold (\<lambda>k d. AList.update k v d) ks d0)))"
proof (induction ks arbitrary: d0)
  case Nil
  show ?case by simp
next
  case (Cons k ks)
  from Cons.IH [of "AList.update k v d0"] show ?case
    by (auto simp: update_conv' distinct_update fun_eq_iff)
qed

lemma map_of_dict_from_keys:
  "map_of (dict_from_keys ks v) = (\<lambda>k. if k \<in> set ks then Some v else None)"
  by (auto simp: dict_from_keys_def fold_update_const [THEN conjunct1] fun_eq_iff)

lemma distinct_dict_from_keys: "distinct (map fst (dict_from_keys ks v))"
  using fold_update_const [of v ks "[]"] by (simp add: dict_from_keys_def)

lemma keys_dict_from_keys: "fst ` set (dict_from_keys ks v) = set ks"
proof -
  have "dom (map_of (dict_from_keys ks v)) = set ks"
    by (auto simp: map_of_dict_from_keys split: if_splits)
  then show ?thesis by (simp add: dom_map_of_conv_image_fst)
qed

lemma match_assets_step:
  assumes "map_of news title = Some info"
  shows "match_assets news title c (a # rest) acc =
     (if headline_matches a title info
      then (case append_compound a c acc of
              Inl e \<Rightarrow> Inl e
            | Inr s \<Rightarrow> match_assets news title c rest s)
      else match_assets news title c rest acc)"
  using assms by (simp add: headline_matches_def)

lemma match_assets_result:
  assumes "map_of news title = Some info"
  shows "distinct assets \<Longrightarrow> set assets \<subseteq> fst ` set acc \<Longrightarrow>
     \<exists>acc'. match_assets news title c assets acc = Inr acc' \<and>
       fst ` set acc' = fst ` set acc \<and>
       (distinct (map fst acc) \<longrightarrow> distinct (map fst acc')) \<and>
       (\<forall>x. map_of acc' x =
          (if x \<in> set assets \<and> headline_matches x title info
           then map_option (\<lambda>l. l @ [c]) (map_of acc x) else map_of acc x))"
proof (induction assets arbitrary: acc)
  case Nil
  show ?case by simp
next
  case (Cons a rest)
  from Cons.prems have d: "distinct rest" and na: "a \<notin> set rest"
    and ka: "a \<in> fst ` set acc" and kr: "set rest \<subseteq> fst ` set acc"
    by auto
  show ?case
  proof (cases "headline_matches a title info")
    case False
    from Cons.IH [OF d kr] obtain acc' where
      r: "match_assets news title c rest acc = Inr acc'"
      and k: "fst ` set acc' = fst ` set acc"
      and dd: "distinct (map fst acc) \<longrightarrow> distinct (map fst acc')"
      and m: "\<forall>x. map_of acc' x =
          (if x \<in> set rest \<and> headline_matches x title info
           then map_option (\<lambda>l. l @ [c]) (map_of acc x) else map_of acc x)"
      by blast
    have "match_assets news title c (a # rest) acc = Inr acc'"
      using r False by (simp only: match_assets_step [OF assms] if_False)
    moreover have "\<forall>x. map_of acc' x =
          (if x \<in> set (a # rest) \<and> headline_matches x title info
           then map_option (\<lambda>l. l @ [c]) (map_of acc x) else map_of acc x)"
      using m False by auto
    ultimately show ?thesis using k dd by blast
  next
    case True
    from ka obtain l where l: "map_of acc a = Some l"
      by (metis domD dom_map_of_conv_image_fst)
    let ?acc1 = "AList.update a (l @ [c]) acc"
    have ap: "append_compound a c acc = Inr ?acc1"
      by (simp add: append_compound_def l)
    have k1: "fst ` set ?acc1 = fst ` set acc"
      using ka by (auto simp: dom_update)
    then have kr1: "set rest \<subseteq> fst ` set ?acc1" using kr by simp
    from Cons.IH [OF d kr1] obtain acc' where
      r: "match_assets news title c rest ?acc1 = Inr acc'"
      and k: "fst ` set acc' = fst ` set ?acc1"
      and dd: "distinct (map fst ?acc1) \<longrightarrow> distinct (map fst acc')"
      and m: "\<forall>x. map_of acc' x =
          (if x \<in> set rest \<and> headline_matches x title info
           then map_option (\<lambda>l. l @ [c]) (map_of ?acc1 x) else map_of ?acc1 x)"
      by blast
    have "match_assets news title c (a # rest) acc = Inr acc'"
      using r True ap by (simp only: match_assets_step [OF assms] if_True sum.case)
    moreover have "\<forall>x. map_of acc' x =
          (if x \<in> set (a # rest) \<and> headline_matches x title info
           then map_option (\<lambda>l. l @ [c]) (map_of acc x) else map_of acc x)"
      using m True na l by (auto simp: update_conv')
    moreover have "distinct (map fst acc) \<longrightarrow> distinct (map fst acc')"
      using dd by (simp add: distinct_update)
    ultimately show ?thesis using k k1 by auto
  qed
qed

lemma match_headlines_result:
  assumes "distinct assets"
  shows "set assets \<subseteq> fst ` set acc \<Longrightarrow> \<forall>p \<in> set scores. map_of news (fst p) \<noteq> None \<Longrightarrow>
     \<exists>acc'. match_headlines news scores assets acc = Inr acc' \<and>
       fst ` set acc' = fst ` set acc \<and>
       (distinct (map fst acc) \<longrightarrow> distinct (map fst acc')) \<and>
       (\<forall>x. map_of acc' x =
          (if x \<in> set assets
           then map_option (\<lambda>l. l @ matched_scores news scores x) (map_of acc x)
           else map_of acc x))"
proof (induction scores arbitrary: acc)
  case Nil
  have "map_option (\<lambda>l. l @ matched_scores news [] x) (map_of acc x) = map_of acc x" for x
    by (simp add: matched_scores_def option.map_ident)
  then show ?case by simp
next
  case (Cons p scores)
  obtain t s where p: "p = (t, s)" by (cases p)
  from Cons.prems(2) obtain info where info: "map_of news t = Some info"
    by (auto simp: p)
  from Cons.prems(2) have rest: "\<forall>p \<in> set scores. map_of news (fst p) \<noteq> None"
    by simp
  from match_assets_result [OF info assms Cons.prems(1), of "compound s"]
  obtain acc1 where
    r1: "match_assets news t (compound s) assets acc = Inr acc1"
    and k1: "fst ` set acc1 = fst ` set acc"
    and d1: "distinct (map fst acc) \<longrightarrow> distinct (map fst acc1)"
    and m1: "\<forall>x. map_of acc1 x =
          (if x \<in> set assets \<and> headline_matches x t info
           then map_option (\<lambda>l. l @ [compound s]) (map_of acc x) else map_of acc x)"
    by blast
  from Cons.prems(1) k1 have "set assets \<subseteq> fst ` set acc1" by simp
  from Cons.IH [OF this rest] obtain acc' where
    r: "match_headlines news scores assets acc1 = Inr acc'"
    and k: "fst ` set acc' = fst ` set acc1"
    and d: "distinct (map fst acc1) \<longrightarrow> distinct (map fst acc')"
    and m: "\<forall>x. map_of acc' x =
          (if x \<in> set assets
           then map_option (\<lambda>l. l @ matched_scores news scores x) (map_of acc1 x)
           else map_of acc1 x)"
    by blast
  have ms: "matched_scores news (p # scores) x =
        (if headline_matches x t info then [compound s] else []) @ matched_scores news scores x"
    for x
    by (simp add: matched_scores_def p info)
  have "match_headlines news (p # scores) assets acc = Inr acc'"
    using r1 r by (simp add: p)
  moreover have "\<forall>x. map_of acc' x =
          (if x \<in> set assets
           then map_option (\<lambda>l. l @ matched_scores news (p # scores) x) (map_of acc x)
           else map_of acc x)"
  proof
    fix x
    show "map_of acc' x =
          (if x \<in> set assets
           then map_option (\<lambda>l. l @ matched_scores news (p # scores) x) (map_of acc x)
           else map_of acc x)"
    proof (cases "x \<in> set assets")
      case False
      with m m1 show ?thesis by simp
    next
      case True
      show ?thesis
      proof (cases "headline_matches x t info")
        case h: True
        with True m m1 show ?thesis
          by (simp add: ms option.map_comp o_def)
      next
        case h: False
        with True m m1 show ?thesis
          by (simp add: ms)
      qed
    qed
  qed
  ultimately show ?case using k k1 d d1 by auto
qed

lemma aggregate_loop_result:
  "map_of (aggregate_loop s acc) =
     (\<lambda>a. case map_of (rev s) a of
             Some l \<Rightarrow> Some (aggregate_one l)
           | None \<Rightarrow> map_of acc a)"
proof (induction s arbitrary: acc)
  case Nil
  show ?case by simp
next
  case (Cons p s)
  obtain a l where p: "p = (a, l)" by (cases p)
  show ?case
    unfolding p aggregate_loop.simps Cons.IH
    by (rule ext) (simp add: update_conv' map_add_def split: option.splits)
qed

lemma matched_scores_analyze:
  assumes "distinct (map fst news)"
  shows "matched_scores news (analyze_sentiment polarity news) a = matched_compounds polarity news a"
proof -
  have look: "map_of news t = Some i" if "(t, i) \<in> set news" for t i
    using that by (simp add: map_of_is_SomeI [OF assms])
  have "filter (\<lambda>(title, scores). case map_of news title of None \<Rightarrow> False
                  | Some info \<Rightarrow> headline_matches a title info)
          (map (\<lambda>(t, i). (t, polarity (t @ '' '' @ description i))) news)
        = map (\<lambda>(t, i). (t, polarity (t @ '' '' @ description i)))
            (filter (\<lambda>(title, info). headline_matches a title info) news)"
    unfolding filter_map
    by (rule arg_cong [where f = "map _"], rule filter_cong) (auto simp: look)
  then show ?thesis
    by (simp add: matched_scores_def matched_compounds_def analyze_sentiment_eq [OF assms]
          split_def o_def)
qed

lemma aggregate_lookup:
  assumes "distinct (map fst news)" and "distinct assets"
  shows "map_of (aggregate_sentiment_by_asset polarity news assets) =
           (\<lambda>a. if a \<in> set assets
                then Some (aggregate_one (matched_compounds polarity news a)) else None)"
proof -
  let ?scores = "analyze_sentiment polarity news"
  let ?init = "dict_from_keys assets ([] :: real list)"
  have titles: "\<forall>p \<in> set ?scores. map_of news (fst p) \<noteq> None"
  proof
    fix p assume "p \<in> set ?scores"
    then have "fst p \<in> set (map fst ?scores)" by simp
    also have "map fst ?scores = map fst news"
      by (simp add: analyze_sentiment_eq [OF assms(1)] split_def o_def)
    finally have "fst p \<in> fst ` set news" by simp
    then show "map_of news (fst p) \<noteq> None"
      by (simp add: map_of_eq_None_iff)
  qed
  have keys: "set assets \<subseteq> fst ` set ?init"
    by (simp add: keys_dict_from_keys)
  from match_headlines_result [OF assms(2) keys titles] obtain s where
    r: "match_headlines news ?scores assets ?init = Inr s"
    and d0: "distinct (map fst ?init) \<longrightarrow> distinct (map fst s)"
    and m: "\<forall>x. map_of s x =
          (if x \<in> set assets
           then map_option (\<lambda>l. l @ matched_scores news ?scores x) (map_of ?init x)
           else map_of ?init x)"
    by blast
  from d0 have d: "distinct (map fst s)"
    by (simp add: distinct_dict_from_keys)
  have ms: "map_of s = (\<lambda>x. if x \<in> set assets then Some (matched_compounds polarity news x) else None)"
    by (rule ext) (simp add: m map_of_dict_from_keys matched_scores_analyze [OF assms(1)])
  have "aggregate_sentiment_by_asset polarity news assets = aggregate_loop s []"
    using r by (simp add: aggregate_sentiment_by_asset_def Let_def)
  then show ?thesis
    by (simp add: aggregate_loop_result map_of_rev_distinct [OF d] ms fun_eq_iff)
qed

lemma lower_ABC: "lower ''ABC'' = ''abc''"
  by code_simp

lemma lower_ABC_rallies: "lower ''ABC rallies'' = ''abc rallies''"
  by code_simp

lemma headline_ABC_rallies: "headline_matches ''ABC'' ''ABC rallies'' info"
  by (simp add: headline_matches_def lower_ABC lower_ABC_rallies)

text \<open>
  Claim C6, as stated, fails for a ticker list that repeats a ticker: the inner loop runs
  once per list entry and appends to the one dict entry each time, so with the tickers
  ABC, ABC and the single matching headline "ABC rallies" of compound score 0.8 the
  count is 2, not the number of matching headlines, 1.
\<close>

theorem aggregate_repeated_ticker_counterexample:
  "aggregate_sentiment_by_asset
     (\<lambda>text. \<lparr>neg = 0, neu = 0.2, pos = 0.8, compound = 0.8\<rparr>)
     [(''ABC rallies'', \<lparr>description = [], source = ''Yahoo Finance'', published_at = []\<rparr>)]
     [''ABC'', ''ABC'']
     = [(''ABC'', \<lparr>avg_compound = 0.8, count = 2\<rparr>)] \<and>
   matched_compounds
     (\<lambda>text. \<lparr>neg = 0, neu = 0.2, pos = 0.8, compound = 0.8\<rparr>)
     [(''ABC rallies'', \<lparr>description = [], source = ''Yahoo Finance'', published_at = []\<rparr>)]
     ''ABC'' = [0.8]"
  by code_simp

text \<open>
  Claim C6, amended. For every news dict and every ticker list without repeated tickers,
  \<open>aggregate_sentiment_by_asset\<close> returns a dict whose keys are the tickers and which
  gives each ticker the arithmetic mean of the compound scores of the headlines that match
  it, with count the number of those headlines, and average 0.0 and count 0 when no
  headline matches; a headline matches a ticker exactly when the lower-cased ticker is a
  substring of the lower-cased headline or of its lower-cased description. One headline
  "ABC rallies" with compound score 0.8 against the tickers ABC gives average 0.8 and
  count 1.
\<close>

theorem aggregate_sentiment_mean:
  assumes "distinct (map fst news_data)"
    and "distinct assets"
    and "a \<in> set assets"
    and "matched = matched_compounds polarity news_data a"
  shows "fst ` set (aggregate_sentiment_by_asset polarity news_data assets) = set assets \<and>
         map_of (aggregate_sentiment_by_asset polarity news_data assets) a =
           Some (if matched = [] then \<lparr>avg_compound = 0, count = 0\<rparr>
                 else \<lparr>avg_compound = sum_list matched / real (length matched),
                       count = int (length matched)\<rparr>) \<and>
         (compound (polarity (''ABC rallies'' @ '' '' @ description info)) = 0.8 \<longrightarrow>
            aggregate_sentiment_by_asset polarity [(''ABC rallies'', info)] [''ABC'']
              = [(''ABC'', \<lparr>avg_compound = 0.8, count = 1\<rparr>)]) \<and>
         (\<not> headline_matches ''ABC'' title info \<longrightarrow>
            aggregate_sentiment_by_asset polarity [(title, info)] [''ABC'']
              = [(''ABC'', \<lparr>avg_compound = 0, count = 0\<rparr>)])"
proof -
  have m: "map_of (aggregate_sentiment_by_asset polarity news_data assets) =
           (\<lambda>a. if a \<in> set assets
                then Some (aggregate_one (matched_compounds polarity news_data a)) else None)"
    by (rule aggregate_lookup [OF assms(1,2)])
  have "dom (map_of (aggregate_sentiment_by_asset polarity news_data assets)) = set assets"
    unfolding m by (auto split: if_splits)
  then have k: "fst ` set (aggregate_sentiment_by_asset polarity news_data assets) = set assets"
    by (simp add: dom_map_of_conv_image_fst)
  have v: "map_of (aggregate_sentiment_by_asset polarity news_data assets) a =
           Some (if matched = [] then \<lparr>avg_compound = 0, count = 0\<rparr>
                 else \<lparr>avg_compound = sum_list matched / real (length matched),
                       count = int (length matched)\<rparr>)"
    using assms(3,4) by (simp add: m aggregate_one_def)
  have e1: "aggregate_sentiment_by_asset polarity [(''ABC rallies'', info)] [''ABC'']
              = [(''ABC'', \<lparr>avg_compound = 0.8, count = 1\<rparr>)]"
    if "compound (polarity (''ABC rallies'' @ '' '' @ description info)) = 0.8"
    using that headline_ABC_rallies [of info]
    by (simp add: aggregate_sentiment_by_asset_def analyze_sentiment_def dict_from_keys_def
          append_compound_def aggregate_one_def headline_matches_def
          lower_ABC lower_ABC_rallies)
  have e2: "aggregate_sentiment_by_asset polarity [(title, info)] [''ABC'']
              = [(''ABC'', \<lparr>avg_compound = 0, count = 0\<rparr>)]"
    if "\<not> headline_matches ''ABC'' title info"
    using that
    by (simp add: aggregate_sentiment_by_asset_def analyze_sentiment_def dict_from_keys_def
          append_compound_def aggregate_one_def headline_matches_def)
  from k v e1 e2 show ?thesis by blast
qed

theorem aggregate_sentiment_mean_witness:
  "distinct (map fst
     [(''ABC rallies'', \<lparr>description = ''shares up'', source = ''Yahoo Finance'', published_at = []\<rparr>),
      (''Markets slip'', \<lparr>description = ''abc and xyz fall'', source = ''Yahoo Finance'', published_at = []\<rparr>)]) \<and>
   distinct [''ABC'', ''XYZ'', ''QQQ''] \<and>
   map_of (aggregate_sentiment_by_asset
     (\<lambda>text. \<lparr>neg = 0, neu = 0, pos = 0, compound = (if length text = 21 then 0.8 else - 0.4)\<rparr>)
     [(''ABC rallies'', \<lparr>description = ''shares up'', source = ''Yahoo Finance'', published_at = []\<rparr>),
      (''Markets slip'', \<lparr>description = ''abc and xyz fall'', source = ''Yahoo Finance'', published_at = []\<rparr>)]
     [''ABC'', ''XYZ'', ''QQQ'']) ''ABC''
     = Some \<lparr>avg_compound = 0.2, count = 2\<rparr>"
proof -
  let ?p = "\<lambda>text. \<lparr>neg = 0, neu = 0, pos = 0, compound = (if length text = 21 then 0.8 else - 0.4 :: real)\<rparr>"
  let ?news = "[(''ABC rallies'', \<lparr>description = ''shares up'', source = ''Yahoo Finance'', published_at = []\<rparr>),
      (''Markets slip'', \<lparr>description = ''abc and xyz fall'', source = ''Yahoo Finance'', published_at = []\<rparr>)]"
  have d: "distinct (map fst ?news)" by simp
  have e: "distinct [''ABC'', ''XYZ'', ''QQQ'']" by simp
  have a: "''ABC'' \<in> set [''ABC'', ''XYZ'', ''QQQ'']" by simp
  have mc: "matched_compounds ?p ?news ''ABC'' = [0.8, - 0.4]"
    by code_simp
  from aggregate_sentiment_mean [OF d e a mc [symmetric]] d e show ?thesis
    by simp
qed

end
